theory Spec2Isabelle
  imports Complex_Main
begin

section \<open>Errors and numeric conventions\<close>

text \<open>
  The T5 attention core of the repository (\<^verbatim>\<open>projects/T5/models\<close>) works on float32
  tensors of the array framework.  Floating-point numbers are idealised as real
  numbers; Python integers are \<^typ>\<open>int\<close>.  Every \<^verbatim>\<open>raise\<close>, failed \<^verbatim>\<open>assert\<close> and
  failing array operation is a value of the type \<open>error\<close>, returned on the left of a sum.
\<close>

datatype error =
    ValueError
  | AssertionError
  | AttributeError
  | ZeroDivisionError
  | IndexError
  | ShapeError

definition bind_r :: "error + 'a \<Rightarrow> ('a \<Rightarrow> error + 'b) \<Rightarrow> error + 'b" where
  "bind_r m f = (case m of Inl e \<Rightarrow> Inl e | Inr x \<Rightarrow> f x)"

section \<open>Relative position buckets (attention.py, \<^verbatim>\<open>_relative_position_bucket\<close>)\<close>

text \<open>\<^verbatim>\<open>.to(flow.long)\<close> on a float tensor truncates towards zero.\<close>

definition to_long :: "real \<Rightarrow> int" where
  "to_long r = (if 0 \<le> r then \<lfloor>r\<rfloor> else \<lceil>r\<rceil>)"

text \<open>
  The element-wise part of \<^verbatim>\<open>_relative_position_bucket\<close>: \<open>num_buckets\<close> is the value
  after the halving of the bidirectional branch, \<open>max_exact = num_buckets // 2\<close>.
  The framework computes both candidates for every element and \<^verbatim>\<open>flow.where\<close> picks one.
  The float32 logarithm is the real \<open>ln\<close> here; the candidate for large positions is
  meaningful only where its argument is positive and \<open>max_distance\<close> differs from
  \<open>max_exact\<close>, which the configurations considered below ensure wherever it is picked.
\<close>

definition bucket_of :: "bool \<Rightarrow> int \<Rightarrow> int \<Rightarrow> int \<Rightarrow> int \<Rightarrow> int" where
  "bucket_of bidirectional num_buckets max_exact max_distance relative_position =
    (let relative_buckets =
           (if bidirectional
            then (if relative_position > 0 then 1 else 0) * num_buckets else 0);
         relative_position =
           (if bidirectional then \<bar>relative_position\<bar>
            else - 1 * min relative_position 0);
         is_small = (relative_position < max_exact);
         relative_postion_if_large = max_exact +
           to_long (ln (real_of_int relative_position / real_of_int max_exact)
                    / ln (real_of_int max_distance / real_of_int max_exact)
                    * real_of_int (num_buckets - max_exact));
         relative_postion_if_large = min relative_postion_if_large (num_buckets - 1)
     in relative_buckets + (if is_small then relative_position else relative_postion_if_large))"

text \<open>
  The whole function, on a matrix of relative positions.  The two Python-level scalar
  computations can raise before any element is looked at: \<^verbatim>\<open>max_distance / max_exact\<close>
  raises \<^verbatim>\<open>ZeroDivisionError\<close> when \<open>max_exact = 0\<close>, and \<^verbatim>\<open>math.log\<close> raises
  \<^verbatim>\<open>ValueError\<close> on a non-positive argument.
\<close>

definition relative_position_bucket ::
  "int list list \<Rightarrow> bool \<Rightarrow> int \<Rightarrow> int \<Rightarrow> error + int list list" where
  "relative_position_bucket relative_position bidirectional num_buckets max_distance =
    (let num_buckets = (if bidirectional then num_buckets div 2 else num_buckets);
         max_exact = num_buckets div 2
     in if max_exact = 0 then Inl ZeroDivisionError
        else if real_of_int max_distance / real_of_int max_exact \<le> 0 then Inl ValueError
        else Inr (map (map (bucket_of bidirectional num_buckets max_exact max_distance))
                    relative_position))"

section \<open>RMS layer normalisation (layer_norm.py)\<close>

text \<open>
  \<^verbatim>\<open>LayerNorm.forward\<close> on one feature row and on a whole tensor.  The weight is created
  as float32, so the cast of the result to a half-precision weight does not apply.
\<close>

record LayerNorm =
  weight :: "real list"
  variance_epsilon :: real

definition rsqrt :: "real \<Rightarrow> real" where
  "rsqrt x = 1 / sqrt x"

definition mean_pow2 :: "real list \<Rightarrow> real" where
  "mean_pow2 xs = sum_list (map (\<lambda>x. x ^ 2) xs) / real (length xs)"

text \<open>Element-wise product of two vectors with the framework's broadcasting of a size-1 axis.\<close>

definition broadcast_vec :: "(real \<Rightarrow> real \<Rightarrow> real) \<Rightarrow> real list \<Rightarrow> real list \<Rightarrow> error + real list" where
  "broadcast_vec f xs ys =
    (if length xs = length ys then Inr (map2 f xs ys)
     else if length xs = 1 then Inr (map (f (xs ! 0)) ys)
     else if length ys = 1 then Inr (map (\<lambda>x. f x (ys ! 0)) xs)
     else Inl ShapeError)"

definition LayerNorm_row :: "LayerNorm \<Rightarrow> real list \<Rightarrow> error + real list" where
  "LayerNorm_row self hidden_states =
    (let variance = mean_pow2 hidden_states;
         hidden_states = map (\<lambda>x. x * rsqrt (variance + variance_epsilon self)) hidden_states
     in broadcast_vec (*) (weight self) hidden_states)"

definition LayerNorm_forward :: "LayerNorm \<Rightarrow> real list list list \<Rightarrow> error + real list list list" where
  "LayerNorm_forward self hidden_states =
    (if list_all (list_all (\<lambda>row. \<not> isl (LayerNorm_row self row))) hidden_states
     then Inr (map (map (\<lambda>row. projr (LayerNorm_row self row))) hidden_states)
     else Inl ShapeError)"


section \<open>Tensors\<close>

text \<open>
  A tensor is a nested list in row-major order: \<open>tensor3\<close> is \<open>[bsz][seq][hidden]\<close>,
  \<open>tensor4\<close> is \<open>[bsz][heads][seq][size]\<close>.  Placement and sbp signatures
  (\<^verbatim>\<open>to_global\<close>) do not change the values and are left out.  A nested list cannot
  record the inner extents of an empty axis, so \<open>size1\<close> and \<open>size2\<close> read the
  extents off the first element.
\<close>

type_synonym tensor3 = "real list list list"
type_synonym tensor4 = "real list list list list"

definition size1 :: "'a list list \<Rightarrow> nat" where
  "size1 t = (case t of [] \<Rightarrow> 0 | x # _ \<Rightarrow> length x)"

definition size2 :: "'a list list list \<Rightarrow> nat" where
  "size2 t = (case t of [] \<Rightarrow> 0 | x # _ \<Rightarrow> size1 x)"

definition dot :: "real list \<Rightarrow> real list \<Rightarrow> real" where
  "dot xs ys = sum_list (map2 (*) xs ys)"

text \<open>
  Modelled from the spec: the linear projection component (\<^verbatim>\<open>libai.layers.linear\<close>) is
  not among the sources; without bias it is the linear map \<open>x \<mapsto> x W\<^sup>T\<close> on the last
  axis, \<open>W\<close> having one row per output feature.
\<close>

definition Linear :: "real list list \<Rightarrow> tensor3 \<Rightarrow> error + tensor3" where
  "Linear w x =
    (if list_all (list_all (\<lambda>row. list_all (\<lambda>wr. length wr = length row) w)) x
     then Inr (map (map (\<lambda>row. map (\<lambda>wr. dot wr row) w)) x)
     else Inl ShapeError)"

text \<open>
  \<^verbatim>\<open>x.view(bsz, -1, num_heads, k).permute(0, 2, 1, 3)\<close>: the feature rows of \<open>x\<close>, in
  memory order, are regrouped into \<open>bsz\<close> batches and each row is cut into
  \<open>num_heads\<close> pieces of \<open>k\<close> features; the result is \<open>[bsz][num_heads][seq][k]\<close>.
\<close>

definition regroup :: "nat \<Rightarrow> 'a list \<Rightarrow> 'a list list" where
  "regroup bsz rows =
    (let t = length rows div bsz
     in map (\<lambda>b. take t (drop (b * t) rows)) [0..<bsz])"

definition view_permute :: "nat \<Rightarrow> nat \<Rightarrow> nat \<Rightarrow> tensor3 \<Rightarrow> error + tensor4" where
  "view_permute bsz num_heads k x =
    (let rows = concat x
     in if bsz = 0 \<or> num_heads * k = 0 \<or> length rows mod bsz \<noteq> 0
           \<or> \<not> list_all (\<lambda>row. length row = num_heads * k) rows
        then Inl ShapeError
        else Inr (map (\<lambda>batch.
                    map (\<lambda>h. map (\<lambda>row. take k (drop (h * k) row)) batch) [0..<num_heads])
                  (regroup bsz rows)))"

text \<open>\<^verbatim>\<open>flow.chunk(t, chunks=n, dim=-1)\<close>: piece \<open>i\<close> of \<open>n\<close> along the last axis.\<close>

definition chunk_last :: "nat \<Rightarrow> nat \<Rightarrow> tensor4 \<Rightarrow> tensor4" where
  "chunk_last n i t =
    map (map (map (\<lambda>r. let c = (length r + n - 1) div n in take c (drop (i * c) r)))) t"

text \<open>\<^verbatim>\<open>flow.cat((a, b), dim=2)\<close>: the other three extents have to agree.\<close>

definition cat_dim2 :: "tensor4 \<Rightarrow> tensor4 \<Rightarrow> error + tensor4" where
  "cat_dim2 a b =
    (if length a = length b
        \<and> list_all2 (\<lambda>x y. length x = length y
             \<and> list_all2 (\<lambda>x' y'. list_all (\<lambda>r. list_all (\<lambda>s. length r = length s) y') x') x y) a b
     then Inr (map2 (map2 (@)) a b)
     else Inl ShapeError)"

text \<open>\<^verbatim>\<open>flow.matmul(query, key, transpose_b=True)\<close>, batched over the two leading axes.\<close>

definition matmul_transpose_b :: "tensor4 \<Rightarrow> tensor4 \<Rightarrow> error + tensor4" where
  "matmul_transpose_b query key =
    (if length query = length key
        \<and> list_all2 (\<lambda>x y. length x = length y
             \<and> list_all2 (\<lambda>qm km. list_all (\<lambda>qr. list_all (\<lambda>kr. length qr = length kr) km) qm) x y)
             query key
     then Inr (map2 (map2 (\<lambda>qm km. map (\<lambda>qr. map (\<lambda>kr. dot qr kr) km) qm)) query key)
     else Inl ShapeError)"

text \<open>\<^verbatim>\<open>flow.matmul(attention_weights, value)\<close>; \<open>n\<close> is the last extent of \<open>value\<close>.\<close>

definition matmul_value :: "nat \<Rightarrow> tensor4 \<Rightarrow> tensor4 \<Rightarrow> error + tensor4" where
  "matmul_value n attention_weights val =
    (if length attention_weights = length val
        \<and> list_all2 (\<lambda>x y. length x = length y
             \<and> list_all2 (\<lambda>wm vm. list_all (\<lambda>wr. length wr = length vm) wm
                                  \<and> list_all (\<lambda>vr. length vr = n) vm) x y)
             attention_weights val
     then Inr (map2 (map2 (\<lambda>wm vm.
                 map (\<lambda>wr. map (\<lambda>d. dot wr (map (\<lambda>vr. vr ! d) vm)) [0..<n]) wm))
               attention_weights val)
     else Inl ShapeError)"

subsection \<open>Broadcasting\<close>

text \<open>
  Two axes are compatible when they have the same extent or one of them has extent 1,
  which is then repeated.  \<^verbatim>\<open>x += y\<close> and \<^verbatim>\<open>x *= c\<close> are modelled by the value they
  bind to \<open>x\<close>, \<open>x + y\<close> and \<open>x * c\<close> with broadcasting; where the framework
  refuses an update in place that would enlarge \<open>x\<close>, the call fails earlier than in
  the model.
\<close>

definition bcompat :: "'a list \<Rightarrow> 'b list \<Rightarrow> bool" where
  "bcompat xs ys = (length xs = length ys \<or> length xs = 1 \<or> length ys = 1)"

definition bmap2 :: "('a \<Rightarrow> 'b \<Rightarrow> 'c) \<Rightarrow> 'a list \<Rightarrow> 'b list \<Rightarrow> 'c list" where
  "bmap2 f xs ys =
    (if length xs = length ys then map2 f xs ys
     else if length xs = 1 then map (f (xs ! 0)) ys
     else if length ys = 1 then map (\<lambda>x. f x (ys ! 0)) xs
     else [])"

definition broadcastable4 :: "tensor4 \<Rightarrow> tensor4 \<Rightarrow> bool" where
  "broadcastable4 a b =
    (bcompat a b \<and>
     list_all (\<lambda>x. list_all (\<lambda>y. bcompat x y \<and>
       list_all (\<lambda>x'. list_all (\<lambda>y'. bcompat x' y' \<and>
         list_all (\<lambda>r. list_all (\<lambda>s. bcompat r s) y') x') y) x) b) a)"

definition broadcast4 :: "(real \<Rightarrow> real \<Rightarrow> real) \<Rightarrow> tensor4 \<Rightarrow> tensor4 \<Rightarrow> error + tensor4" where
  "broadcast4 f a b =
    (if broadcastable4 a b then Inr (bmap2 (bmap2 (bmap2 (bmap2 f))) a b)
     else Inl ShapeError)"

definition map4 :: "(real \<Rightarrow> real) \<Rightarrow> tensor4 \<Rightarrow> tensor4" where
  "map4 f t = map (map (map (map f))) t"

definition softmax :: "real list \<Rightarrow> real list" where
  "softmax xs = map (\<lambda>x. exp x / sum_list (map exp xs)) xs"

section \<open>Multi-head attention (attention.py)\<close>

text \<open>
  The fields of a constructed \<^verbatim>\<open>MultiheadAttention\<close>.  The weights of the projections
  and the bias table are part of the object; \<open>attention_dropout\<close> and
  \<open>output_dropout\<close> stand for the masks the two dropout modules draw in a call.
\<close>

record MultiheadAttention =
  hidden_size :: nat
  relative_attention_num_buckets :: int
  has_relative_attention_bias :: bool
  is_decoder :: bool
  num_heads :: nat
  head_size :: nat
  attention_dropout_prob :: real
  attention_dropout :: "tensor4 \<Rightarrow> tensor4"
  norm_factor :: real
  coeff :: "int option"
  is_cross_attention :: bool
  scale_mask_softmax_fusion :: bool
  bias_dropout_fusion :: bool
  output_dropout_prob :: real
  output_dropout :: "tensor3 \<Rightarrow> tensor3"
  query_weight :: "real list list"
  key_value_weight :: "real list list"
  query_key_value_weight :: "real list list"
  dense_weight :: "real list list"
  relative_attention_bias :: "real list list"

text \<open>
  \<^verbatim>\<open>__init__\<close>.  The initial weights (drawn by \<open>init_method\<close> in the source) and the
  dropout draws are arguments.  \<^verbatim>\<open>hidden_size % 0\<close>, \<^verbatim>\<open>1.0 / math.sqrt(0.0)\<close> and a
  division by \<open>coeff = 0\<close> raise \<^verbatim>\<open>ZeroDivisionError\<close>.
\<close>

definition MultiheadAttention_init ::
  "nat \<Rightarrow> nat \<Rightarrow> int \<Rightarrow> bool \<Rightarrow> real \<Rightarrow> real \<Rightarrow> bool \<Rightarrow> bool \<Rightarrow> bool \<Rightarrow> int \<Rightarrow> bool \<Rightarrow> bool
   \<Rightarrow> (tensor4 \<Rightarrow> tensor4) \<Rightarrow> (tensor3 \<Rightarrow> tensor3)
   \<Rightarrow> real list list \<Rightarrow> real list list \<Rightarrow> real list list \<Rightarrow> real list list \<Rightarrow> real list list
   \<Rightarrow> error + MultiheadAttention" where
  "MultiheadAttention_init hidden_size' num_attention_heads relative_attention_num_buckets'
      is_cross_attention' attention_dropout_prob' output_dropout_prob' bias_dropout_fusion'
      scale_mask_softmax_fusion' apply_query_key_layer_scaling layer_idx
      has_relative_attention_bias' is_decoder'
      attention_dropout' output_dropout' w_query w_key_value w_query_key_value w_dense w_bias =
    (if num_attention_heads = 0 then Inl ZeroDivisionError
     else if hidden_size' mod num_attention_heads \<noteq> 0 then Inl AssertionError
     else let head_size' = hidden_size' div num_attention_heads
      in if head_size' = 0 then Inl ZeroDivisionError
         else if apply_query_key_layer_scaling \<and> layer_idx + 1 = 0 then Inl ZeroDivisionError
         else Inr \<lparr>
           hidden_size = hidden_size',
           relative_attention_num_buckets = relative_attention_num_buckets',
           has_relative_attention_bias = has_relative_attention_bias',
           is_decoder = is_decoder',
           num_heads = num_attention_heads,
           head_size = head_size',
           attention_dropout_prob = attention_dropout_prob',
           attention_dropout = attention_dropout',
           norm_factor =
             (if apply_query_key_layer_scaling
              then 1 / sqrt (real head_size') / real_of_int (layer_idx + 1)
              else 1 / sqrt (real head_size')),
           coeff = (if apply_query_key_layer_scaling then Some (layer_idx + 1) else None),
           is_cross_attention = is_cross_attention',
           scale_mask_softmax_fusion = scale_mask_softmax_fusion',
           bias_dropout_fusion = bias_dropout_fusion',
           output_dropout_prob = output_dropout_prob',
           output_dropout = output_dropout',
           query_weight = w_query,
           key_value_weight = w_key_value,
           query_key_value_weight = w_query_key_value,
           dense_weight = w_dense,
           relative_attention_bias = w_bias \<rparr>)"

text \<open>\<^verbatim>\<open>nn.Dropout(p)\<close>: the identity when \<open>p = 0\<close>, otherwise the drawn mask is applied.\<close>

definition Dropout :: "real \<Rightarrow> ('a \<Rightarrow> 'a) \<Rightarrow> 'a \<Rightarrow> 'a" where
  "Dropout p draw x = (if p = 0 then x else draw x)"

subsection \<open>Position bias\<close>

text \<open>
  Modelled from the spec: the embedding component (\<^verbatim>\<open>libai.layers.embedding\<close>) is not
  among the sources; it is a table with one row per bucket and one column per head,
  indexed by the bucket.  \<^verbatim>\<open>compute_bias\<close> leaves \<open>max_distance\<close> at its default 128.
\<close>

definition compute_bias :: "MultiheadAttention \<Rightarrow> nat \<Rightarrow> nat \<Rightarrow> error + tensor4" where
  "compute_bias self query_length key_length =
    (let relative_position =
           map (\<lambda>context_position.
                  map (\<lambda>memory_position. int memory_position - int context_position)
                      [0..<key_length])
               [0..<query_length]
     in bind_r (relative_position_bucket relative_position (\<not> is_decoder self)
                  (relative_attention_num_buckets self) 128)
         (\<lambda>relative_position_bucket.
            if list_all (list_all (\<lambda>b. 0 \<le> b \<and> nat b < length (relative_attention_bias self)))
                 relative_position_bucket
            then Inr [map (\<lambda>h. map (map (\<lambda>b. relative_attention_bias self ! nat b ! h))
                                   relative_position_bucket)
                          [0..<size1 (relative_attention_bias self)]]
            else Inl IndexError))"

text \<open>\<^verbatim>\<open>position_bias[:, :, -n:, :]\<close>; in Python \<^verbatim>\<open>-0:\<close> is the whole axis.\<close>

definition slice_last_rows :: "nat \<Rightarrow> tensor4 \<Rightarrow> tensor4" where
  "slice_last_rows n t =
    map (map (\<lambda>rows. if n = 0 then rows else drop (length rows - n) rows)) t"

text \<open>
  Lines 217 to 239: the bias that is added to the scores.  \<open>cache\<close> says whether
  \<^verbatim>\<open>past_key_value\<close> is not \<^verbatim>\<open>None\<close> at that point, that is after a requested cache has
  been stored in it.  Reading \<^verbatim>\<open>attention_mask.sbp\<close> of an absent mask raises
  \<^verbatim>\<open>AttributeError\<close>.
\<close>

definition resolve_position_bias ::
  "MultiheadAttention \<Rightarrow> nat \<Rightarrow> nat \<Rightarrow> nat \<Rightarrow> bool \<Rightarrow> tensor4 option \<Rightarrow> tensor4 option
   \<Rightarrow> error + tensor4" where
  "resolve_position_bias self real_seq_length key_length tgt_len cache attention_mask position_bias =
    (case position_bias of
       Some supplied \<Rightarrow> Inr supplied
     | None \<Rightarrow>
         bind_r (if \<not> has_relative_attention_bias self
                 then Inr [replicate (num_heads self)
                             (replicate real_seq_length (replicate key_length 0))]
                 else compute_bias self real_seq_length key_length)
           (\<lambda>position_bias.
              let position_bias =
                    (if cache then slice_last_rows tgt_len position_bias else position_bias)
              in case attention_mask of
                   None \<Rightarrow> Inl AttributeError
                 | Some attention_mask \<Rightarrow>
                     broadcast4 (+) position_bias
                       (map4 (\<lambda>m. (1 - m) * (- 1000)) attention_mask)))"

subsection \<open>Masking and softmax\<close>

text \<open>Lines 250 to 253: the scores handed to the softmax on the path that is not fused.\<close>

definition mask_scores :: "int option \<Rightarrow> tensor4 \<Rightarrow> tensor4 \<Rightarrow> error + tensor4" where
  "mask_scores coeff' attention_scores attention_mask =
    (let attention_scores =
           (case coeff' of None \<Rightarrow> attention_scores
            | Some c \<Rightarrow> map4 (\<lambda>s. s * real_of_int c) attention_scores)
     in bind_r (broadcast4 (*) attention_scores attention_mask)
          (\<lambda>attention_scores.
             broadcast4 (-) attention_scores (map4 (\<lambda>m. 10000 * (1 - m)) attention_mask)))"

text \<open>
  The fused kernel \<^verbatim>\<open>fused_scale_mask_softmax\<close> belongs to the array framework: it fills
  the positions where the mask is zero with \<open>fill_value\<close> and takes the softmax.
\<close>

definition fused_scale_mask_softmax :: "tensor4 \<Rightarrow> tensor4 \<Rightarrow> real \<Rightarrow> error + tensor4" where
  "fused_scale_mask_softmax attention_scores attention_mask fill_value =
    bind_r (broadcast4 (\<lambda>s m. if m = 0 then fill_value else s) attention_scores attention_mask)
      (\<lambda>filled. Inr (map (map (map softmax)) filled))"

definition attention_softmax ::
  "MultiheadAttention \<Rightarrow> tensor4 \<Rightarrow> tensor4 option \<Rightarrow> error + tensor4" where
  "attention_softmax self attention_scores attention_mask =
    (case attention_mask of
       Some attention_mask \<Rightarrow>
         if scale_mask_softmax_fusion self
         then fused_scale_mask_softmax attention_scores attention_mask (- 10000)
         else bind_r (mask_scores (coeff self) attention_scores attention_mask)
                (\<lambda>attention_scores. Inr (map (map (map softmax)) attention_scores))
     | None \<Rightarrow> Inr (map (map (map softmax)) attention_scores))"


subsection \<open>Query, key and value\<close>

text \<open>
  Lines 164 to 207 of \<^verbatim>\<open>forward\<close>: the sequence lengths and the source of key and value.
  \<^verbatim>\<open>past_key_value\<close> is a tuple of tensors, asserted to have two elements.  The result
  is \<open>(query, key, value, real_seq_length, key_length)\<close>.
\<close>

definition project_qkv ::
  "MultiheadAttention \<Rightarrow> tensor3 \<Rightarrow> tensor3 option \<Rightarrow> tensor4 list option \<Rightarrow> nat option
   \<Rightarrow> error + (tensor4 \<times> tensor4 \<times> tensor4 \<times> nat \<times> nat)" where
  "project_qkv self hidden_states encoder_states past_key_value query_length =
    (let bsz = length hidden_states; tgt_len = size1 hidden_states
     in bind_r
          (case past_key_value of
             None \<Rightarrow> Inr tgt_len
           | Some past \<Rightarrow>
               if length past \<noteq> 2 then Inl AssertionError
               else Inr (tgt_len + (case query_length of
                                      None \<Rightarrow> size2 (past ! 0) | Some n \<Rightarrow> n)))
          (\<lambda>real_seq_length.
             let key_length =
                   (case encoder_states of None \<Rightarrow> real_seq_length | Some e \<Rightarrow> size1 e)
             in if is_cross_attention self
                then bind_r (Linear (query_weight self) hidden_states) (\<lambda>query.
                     bind_r (view_permute bsz (num_heads self) (head_size self) query) (\<lambda>query.
                       case past_key_value of
                         Some past \<Rightarrow>
                           Inr (query, past ! 0, past ! 1, real_seq_length, key_length)
                       | None \<Rightarrow>
                           (case encoder_states of
                              Some encoder_states \<Rightarrow>
                                bind_r (Linear (key_value_weight self) encoder_states)
                                  (\<lambda>key_value.
                                bind_r (view_permute bsz (num_heads self)
                                          (2 * head_size self) key_value)
                                  (\<lambda>key_value.
                                     Inr (query, chunk_last 2 0 key_value,
                                          chunk_last 2 1 key_value,
                                          real_seq_length, key_length)))
                            | None \<Rightarrow> Inl ValueError)))
                else bind_r (Linear (query_key_value_weight self) hidden_states)
                       (\<lambda>query_key_value.
                     bind_r (view_permute bsz (num_heads self) (3 * head_size self)
                               query_key_value)
                       (\<lambda>query_key_value.
                          let query = chunk_last 3 0 query_key_value;
                              key = chunk_last 3 1 query_key_value;
                              val = chunk_last 3 2 query_key_value
                          in case past_key_value of
                               None \<Rightarrow> Inr (query, key, val, real_seq_length, key_length)
                             | Some past \<Rightarrow>
                                 bind_r (cat_dim2 (past ! 0) key) (\<lambda>key.
                                 bind_r (cat_dim2 (past ! 1) val) (\<lambda>val.
                                   Inr (query, key, val, real_seq_length, key_length)))))))"

text \<open>Line 214: the attention scores before any bias is added.\<close>

definition raw_attention_scores ::
  "MultiheadAttention \<Rightarrow> tensor3 \<Rightarrow> tensor3 option \<Rightarrow> tensor4 list option \<Rightarrow> nat option
   \<Rightarrow> error + tensor4" where
  "raw_attention_scores self hidden_states encoder_states past_key_value query_length =
    bind_r (project_qkv self hidden_states encoder_states past_key_value query_length)
      (\<lambda>(query, key, val, real_seq_length, key_length). matmul_transpose_b query key)"

subsection \<open>The forward pass\<close>

definition size3 :: "'a list list list list \<Rightarrow> nat" where
  "size3 t = (case t of [] \<Rightarrow> 0 | x # _ \<Rightarrow> size2 x)"

text \<open>
  \<^verbatim>\<open>context.transpose(1, 2).view(bsz, tgt_len, hidden_size)\<close>: the heads of every position
  are laid side by side, and the rows are regrouped into \<open>bsz\<close> batches.
\<close>

definition merge_heads :: "nat \<Rightarrow> nat \<Rightarrow> nat \<Rightarrow> tensor4 \<Rightarrow> error + tensor3" where
  "merge_heads bsz tgt_len hidden context =
    (let rows = concat (map (\<lambda>batch.
                   map (\<lambda>t. concat (map (\<lambda>head. head ! t) batch)) [0..<size1 batch]) context)
     in if length rows = bsz * tgt_len \<and> list_all (\<lambda>row. length row = hidden) rows
           \<and> list_all (\<lambda>batch. list_all (\<lambda>head. length head = size1 batch) batch) context
        then Inr (regroup bsz rows)
        else Inl ShapeError)"

text \<open>
  What \<^verbatim>\<open>forward\<close> returns: \<^verbatim>\<open>(output, position_bias)\<close>, or
  \<^verbatim>\<open>((output, past_key_value), position_bias)\<close> when \<^verbatim>\<open>use_cache\<close> is set.
\<close>

record attention_result =
  attention_output :: tensor3
  present :: "(tensor4 \<times> tensor4) option"
  position_bias_out :: tensor4

text \<open>
  Lines 164 to 241: key, value, the position bias and the scores with the bias added.
  At line 231 \<^verbatim>\<open>past_key_value\<close> is not \<^verbatim>\<open>None\<close> when a cache was supplied or
  \<^verbatim>\<open>use_cache\<close> has stored the new one.
\<close>

definition attention_scores_and_bias ::
  "MultiheadAttention \<Rightarrow> tensor3 \<Rightarrow> tensor3 option \<Rightarrow> tensor4 option \<Rightarrow> tensor4 list option
   \<Rightarrow> bool \<Rightarrow> tensor4 option \<Rightarrow> nat option
   \<Rightarrow> error + (tensor4 \<times> tensor4 \<times> tensor4 \<times> tensor4)" where
  "attention_scores_and_bias self hidden_states encoder_states attention_mask past_key_value
      use_cache position_bias query_length =
    bind_r (project_qkv self hidden_states encoder_states past_key_value query_length)
      (\<lambda>(query, key, val, real_seq_length, key_length).
    let cache = (use_cache \<or> past_key_value \<noteq> None)
    in bind_r (matmul_transpose_b query key) (\<lambda>attention_scores.
       bind_r (resolve_position_bias self real_seq_length key_length (size1 hidden_states)
                 cache attention_mask position_bias) (\<lambda>position_bias.
       bind_r (broadcast4 (+) attention_scores position_bias) (\<lambda>attention_scores.
         Inr (key, val, position_bias, attention_scores)))))"

text \<open>
  Lines 243 to 288.  Modelled from the spec: with \<^verbatim>\<open>bias_dropout_fusion\<close> the output
  dropout is fused with the addition of the bias of the output projection, which is built
  without a bias; both paths apply the output dropout to the projected context.
\<close>

definition MultiheadAttention_forward ::
  "MultiheadAttention \<Rightarrow> tensor3 \<Rightarrow> tensor3 option \<Rightarrow> tensor4 option \<Rightarrow> tensor4 list option
   \<Rightarrow> bool \<Rightarrow> tensor4 option \<Rightarrow> nat option \<Rightarrow> error + attention_result" where
  "MultiheadAttention_forward self hidden_states encoder_states attention_mask past_key_value
      use_cache position_bias query_length =
    (let bsz = length hidden_states; tgt_len = size1 hidden_states
     in bind_r (attention_scores_and_bias self hidden_states encoder_states attention_mask
                  past_key_value use_cache position_bias query_length)
          (\<lambda>(key, val, position_bias, attention_scores).
        bind_r (attention_softmax self attention_scores attention_mask) (\<lambda>attention_weights.
        let attention_weights =
              Dropout (attention_dropout_prob self) (attention_dropout self) attention_weights
        in bind_r (matmul_value (size3 val) attention_weights val) (\<lambda>context.
           bind_r (merge_heads bsz tgt_len (hidden_size self) context) (\<lambda>context.
           bind_r (Linear (dense_weight self) context) (\<lambda>dense_output.
             Inr \<lparr> attention_output =
                     Dropout (output_dropout_prob self) (output_dropout self) dense_output,
                   present = (if use_cache then Some (key, val) else None),
                   position_bias_out = position_bias \<rparr>))))))"

text \<open>
  Lines 260 to 288 on their own: the result of \<^verbatim>\<open>forward\<close> from the attention weights
  that the softmax returns.
\<close>

definition attention_output_of ::
  "MultiheadAttention \<Rightarrow> nat \<Rightarrow> nat \<Rightarrow> bool \<Rightarrow> tensor4 \<Rightarrow> tensor4 \<Rightarrow> tensor4 \<Rightarrow> tensor4
   \<Rightarrow> error + attention_result" where
  "attention_output_of self bsz tgt_len use_cache key val position_bias attention_weights =
    (let attention_weights =
           Dropout (attention_dropout_prob self) (attention_dropout self) attention_weights
     in bind_r (matmul_value (size3 val) attention_weights val) (\<lambda>context.
        bind_r (merge_heads bsz tgt_len (hidden_size self) context) (\<lambda>context.
        bind_r (Linear (dense_weight self) context) (\<lambda>dense_output.
          Inr \<lparr> attention_output =
                  Dropout (output_dropout_prob self) (output_dropout self) dense_output,
                present = (if use_cache then Some (key, val) else None),
                position_bias_out = position_bias \<rparr>))))"

text \<open>Reading a broadcast operand: an axis of extent 1 is read at index 0.\<close>

definition bnth :: "'a list \<Rightarrow> nat \<Rightarrow> 'a" where
  "bnth xs i = (if length xs = 1 then xs ! 0 else xs ! i)"

definition bat4 :: "tensor4 \<Rightarrow> nat \<Rightarrow> nat \<Rightarrow> nat \<Rightarrow> nat \<Rightarrow> real" where
  "bat4 t b h i j = bnth (bnth (bnth (bnth t b) h) i) j"

text \<open>The index \<open>(b, h, i, j)\<close> lies inside the tensor.\<close>

definition in_range4 :: "tensor4 \<Rightarrow> nat \<Rightarrow> nat \<Rightarrow> nat \<Rightarrow> nat \<Rightarrow> bool" where
  "in_range4 t b h i j =
    (b < length t \<and> h < length (t ! b) \<and> i < length (t ! b ! h) \<and> j < length (t ! b ! h ! i))"

text \<open>
  A mask of ones whose extents are those of the scores or 1, so that broadcasting it
  against the scores does not enlarge them.
\<close>

definition expands_to :: "'a list \<Rightarrow> 'b list \<Rightarrow> bool" where
  "expands_to m s = (length m = length s \<or> length m = 1)"

definition expands_to4 :: "tensor4 \<Rightarrow> tensor4 \<Rightarrow> bool" where
  "expands_to4 m s =
    (expands_to m s \<and>
     list_all (\<lambda>x. list_all (\<lambda>y. expands_to x y \<and>
       list_all (\<lambda>x'. list_all (\<lambda>y'. expands_to x' y' \<and>
         list_all (\<lambda>r. list_all (\<lambda>t. expands_to r t) y') x') y) x) s) m)"

definition all_ones :: "tensor4 \<Rightarrow> bool" where
  "all_ones m = list_all (list_all (list_all (list_all (\<lambda>x. x = 1)))) m"

text \<open>Every innermost row of the tensor has \<open>n\<close> entries.\<close>

definition rows_of_length :: "nat \<Rightarrow> tensor4 \<Rightarrow> bool" where
  "rows_of_length n t = list_all (list_all (list_all (\<lambda>row. length row = n))) t"

section \<open>Transformer layer (transformer_layer.py)\<close>

definition broadcastable3 :: "tensor3 \<Rightarrow> tensor3 \<Rightarrow> bool" where
  "broadcastable3 a b =
    (bcompat a b \<and>
     list_all (\<lambda>x. list_all (\<lambda>y. bcompat x y \<and>
       list_all (\<lambda>r. list_all (\<lambda>s. bcompat r s) y) x) b) a)"

definition broadcast3 :: "(real \<Rightarrow> real \<Rightarrow> real) \<Rightarrow> tensor3 \<Rightarrow> tensor3 \<Rightarrow> error + tensor3" where
  "broadcast3 f a b =
    (if broadcastable3 a b then Inr (bmap2 (bmap2 (bmap2 f)) a b) else Inl ShapeError)"

text \<open>
  The sub-modules of a constructed layer.  The feed-forward module
  (\<^verbatim>\<open>projects.T5.models.mlp\<close>) is not among the sources and is a parameter of the layer.
  Modelled from the spec: stochastic depth (\<^verbatim>\<open>libai.layers.droppath\<close>, not among the
  sources) is the identity outside training and for the default \<open>drop_path_prob = 0\<close>,
  which is the setting modelled here.
\<close>

record TransformerLayer =
  layer_is_decoder :: bool
  input_layernorm :: LayerNorm
  self_attention :: MultiheadAttention
  post_attention_layernorm :: LayerNorm
  cross_attention :: MultiheadAttention
  post_cross_attention_layernorm :: LayerNorm
  mlp :: "tensor3 \<Rightarrow> error + tensor3"

text \<open>Lines 164 to 173: the cache handed to the self-attention and to the cross-attention.\<close>

definition split_past_key_value ::
  "bool \<Rightarrow> tensor4 list option \<Rightarrow> error + (tensor4 list option \<times> tensor4 list option)" where
  "split_past_key_value decoder past_key_value =
    (case past_key_value of
       Some past \<Rightarrow>
         if decoder
         then if length past \<noteq> 4 then Inl AssertionError
              else Inr (Some (take 2 past), Some (drop 2 past))
         else Inr (Some past, None)
     | None \<Rightarrow> Inr (None, None))"

text \<open>
  What the layer returns: \<^verbatim>\<open>(output, position_bias)\<close> with \<^verbatim>\<open>output\<close> paired with
  \<^verbatim>\<open>presents\<close> when \<^verbatim>\<open>use_cache\<close> is set, and \<^verbatim>\<open>encoder_decoder_position_bias\<close>
  appended by a decoder layer.
\<close>

record layer_result =
  layer_output :: tensor3
  presents :: "tensor4 list option"
  layer_position_bias :: tensor4
  layer_encoder_decoder_position_bias :: "tensor4 option"

definition cache_tuple :: "attention_result \<Rightarrow> tensor4 list option" where
  "cache_tuple r = (case present r of Some (k, v) \<Rightarrow> Some [k, v] | None \<Rightarrow> None)"

definition TransformerLayer_forward ::
  "TransformerLayer \<Rightarrow> tensor3 \<Rightarrow> tensor4 option \<Rightarrow> tensor3 option \<Rightarrow> tensor4 option
   \<Rightarrow> tensor4 list option \<Rightarrow> bool \<Rightarrow> tensor4 option \<Rightarrow> tensor4 option \<Rightarrow> error + layer_result" where
  "TransformerLayer_forward self hidden_states attention_mask encoder_states
      encoder_attention_mask past_key_value use_cache position_bias
      encoder_decoder_position_bias =
    bind_r (split_past_key_value (layer_is_decoder self) past_key_value)
      (\<lambda>(self_attn_past_key_value, cross_attn_past_key_value).
    bind_r (LayerNorm_forward (input_layernorm self) hidden_states) (\<lambda>layernorm_output.
    bind_r (MultiheadAttention_forward (self_attention self) layernorm_output None
              attention_mask self_attn_past_key_value use_cache position_bias None)
      (\<lambda>self_result.
    let position_bias = position_bias_out self_result;
        presents' = (if use_cache then cache_tuple self_result else None)
    in bind_r (broadcast3 (+) hidden_states (attention_output self_result)) (\<lambda>hidden_states.
       bind_r (LayerNorm_forward (post_attention_layernorm self) hidden_states)
         (\<lambda>layernorm_output.
       bind_r
         (if layer_is_decoder self
          then let query_length =
                     (case presents' of Some p \<Rightarrow> Some (size2 (p ! 0)) | None \<Rightarrow> None)
               in bind_r (MultiheadAttention_forward (cross_attention self) layernorm_output
                            encoder_states encoder_attention_mask cross_attn_past_key_value
                            use_cache encoder_decoder_position_bias query_length)
                    (\<lambda>cross_result.
                  let presents' =
                        (if use_cache
                         then (case (presents', cache_tuple cross_result) of
                                 (Some p, Some decoder_presents) \<Rightarrow> Some (p @ decoder_presents)
                               | _ \<Rightarrow> None)
                         else presents')
                  in bind_r (broadcast3 (+) hidden_states (attention_output cross_result))
                       (\<lambda>hidden_states.
                     bind_r (LayerNorm_forward (post_cross_attention_layernorm self)
                               hidden_states)
                       (\<lambda>layernorm_output.
                          Inr (hidden_states, layernorm_output, presents',
                               Some (position_bias_out cross_result)))))
          else Inr (hidden_states, layernorm_output, presents', None))
         (\<lambda>(hidden_states, layernorm_output, presents', encoder_decoder_position_bias).
       bind_r (mlp self layernorm_output) (\<lambda>mlp_output.
       bind_r (broadcast3 (+) hidden_states mlp_output) (\<lambda>layer_out.
         Inr \<lparr> layer_output = layer_out,
               presents = (if use_cache then presents' else None),
               layer_position_bias = position_bias,
               layer_encoder_decoder_position_bias = encoder_decoder_position_bias \<rparr>))))))))"


section \<open>Example layers\<close>

text \<open>
  Small layers on which the properties below are evaluated: a self-attention with
  \<open>hidden_size = 4\<close> and one head whose projections copy the input, a self-attention and
  a cross-attention with \<open>hidden_size = 1\<close>, and a decoder layer made of the two with an
  identity feed-forward module.
\<close>

definition example_attention_4 :: MultiheadAttention where
  "example_attention_4 = \<lparr> hidden_size = 4, relative_attention_num_buckets = 32,
     has_relative_attention_bias = False, is_decoder = False, num_heads = 1, head_size = 4,
     attention_dropout_prob = 0, attention_dropout = id, norm_factor = 1 / 2, coeff = None,
     is_cross_attention = False, scale_mask_softmax_fusion = False, bias_dropout_fusion = False,
     output_dropout_prob = 0, output_dropout = id,
     query_weight = [], key_value_weight = [],
     query_key_value_weight =
       [[1, 0, 0, 0], [0, 1, 0, 0], [0, 0, 1, 0], [0, 0, 0, 1],
        [1, 0, 0, 0], [0, 1, 0, 0], [0, 0, 1, 0], [0, 0, 0, 1],
        [1, 0, 0, 0], [0, 1, 0, 0], [0, 0, 1, 0], [0, 0, 0, 1]],
     dense_weight = [[1, 0, 0, 0], [0, 1, 0, 0], [0, 0, 1, 0], [0, 0, 0, 1]],
     relative_attention_bias = [] \<rparr>"

definition example_self_attention :: MultiheadAttention where
  "example_self_attention = \<lparr> hidden_size = 1, relative_attention_num_buckets = 32,
     has_relative_attention_bias = False, is_decoder = True, num_heads = 1, head_size = 1,
     attention_dropout_prob = 0, attention_dropout = id, norm_factor = 1, coeff = None,
     is_cross_attention = False, scale_mask_softmax_fusion = False, bias_dropout_fusion = False,
     output_dropout_prob = 0, output_dropout = id,
     query_weight = [], key_value_weight = [],
     query_key_value_weight = [[1], [1], [1]],
     dense_weight = [[1]],
     relative_attention_bias = [] \<rparr>"

definition example_cross_attention :: MultiheadAttention where
  "example_cross_attention = \<lparr> hidden_size = 1, relative_attention_num_buckets = 32,
     has_relative_attention_bias = False, is_decoder = True, num_heads = 1, head_size = 1,
     attention_dropout_prob = 0, attention_dropout = id, norm_factor = 1, coeff = None,
     is_cross_attention = True, scale_mask_softmax_fusion = False, bias_dropout_fusion = False,
     output_dropout_prob = 0, output_dropout = id,
     query_weight = [[1]], key_value_weight = [[1], [1]],
     query_key_value_weight = [],
     dense_weight = [[1]],
     relative_attention_bias = [] \<rparr>"

definition example_layer :: TransformerLayer where
  "example_layer = \<lparr> layer_is_decoder = True,
     input_layernorm = \<lparr>weight = [1], variance_epsilon = 1 / 100000\<rparr>,
     self_attention = example_self_attention,
     post_attention_layernorm = \<lparr>weight = [1], variance_epsilon = 1 / 100000\<rparr>,
     cross_attention = example_cross_attention,
     post_cross_attention_layernorm = \<lparr>weight = [1], variance_epsilon = 1 / 100000\<rparr>,
     mlp = Inr \<rparr>"

section \<open>Errors as values\<close>

lemma bind_r_Inl [simp]: "bind_r (Inl e) f = Inl e"
  by (simp add: bind_r_def)

lemma bind_r_Inr [simp]: "bind_r (Inr x) f = f x"
  by (simp add: bind_r_def)

lemma bind_r_eq_Inr: "bind_r m f = Inr r \<longleftrightarrow> (\<exists>x. m = Inr x \<and> f x = Inr r)"
  by (cases m) simp_all

lemma bind_r_eq_Inl: "bind_r m f = Inl e \<longleftrightarrow> m = Inl e \<or> (\<exists>x. m = Inr x \<and> f x = Inl e)"
  by (cases m) simp_all

lemmas eval_defs = bind_r_def Linear_def view_permute_def regroup_def chunk_last_def cat_dim2_def
  matmul_transpose_b_def matmul_value_def bcompat_def bmap2_def broadcastable4_def broadcast4_def
  map4_def softmax_def size1_def size2_def size3_def dot_def merge_heads_def Dropout_def
  slice_last_rows_def Let_def project_qkv_def resolve_position_bias_def attention_softmax_def
  mask_scores_def attention_scores_and_bias_def MultiheadAttention_forward_def
  raw_attention_scores_def fused_scale_mask_softmax_def

lemmas layer_defs = TransformerLayer_forward_def split_past_key_value_def LayerNorm_forward_def
  LayerNorm_row_def mean_pow2_def rsqrt_def broadcast_vec_def broadcastable3_def broadcast3_def
  cache_tuple_def

section \<open>Properties of the relative position buckets\<close>

lemma to_long_nonneg: "0 \<le> r \<Longrightarrow> 0 \<le> to_long r"
  by (simp add: to_long_def)

lemma bucket_of_bounds:
  assumes me: "1 \<le> me" and me_le: "me \<le> nb - 1" and md: "me < md"
  shows "0 \<le> bucket_of False nb me md rp \<and> bucket_of False nb me md rp \<le> nb - 1"
    and "0 \<le> bucket_of True nb me md rp \<and> bucket_of True nb me md rp \<le> 2 * nb - 1"
proof -
  have large: "0 \<le> to_long (ln (real_of_int p / real_of_int me)
                               / ln (real_of_int md / real_of_int me)
                               * real_of_int (nb - me))" if "me \<le> p" for p
  proof -
    have "1 \<le> real_of_int p / real_of_int me" using that me by simp
    then have a: "0 \<le> ln (real_of_int p / real_of_int me)" by simp
    have "1 < real_of_int md / real_of_int me" using md me by simp
    then have b: "0 < ln (real_of_int md / real_of_int me)" by simp
    have c: "0 \<le> real_of_int (nb - me)" using me_le by simp
    show ?thesis using a b c by (intro to_long_nonneg mult_nonneg_nonneg divide_nonneg_pos)
  qed
  show "0 \<le> bucket_of False nb me md rp \<and> bucket_of False nb me md rp \<le> nb - 1"
    using large[of "- min rp 0"] me me_le
    by (auto simp: bucket_of_def Let_def min_def)
  show "0 \<le> bucket_of True nb me md rp \<and> bucket_of True nb me md rp \<le> 2 * nb - 1"
    using large[of "\<bar>rp\<bar>"] me me_le
    by (auto simp: bucket_of_def Let_def min_def)
qed

text \<open>
  Claim C4, as the code has it.  For relative positions in \<open>[-10000, 10000]\<close>, a positive
  even \<open>num_buckets\<close> and \<open>max_distance > num_buckets / 2\<close>, the function returns a
  matrix of the shape of its argument whose entries lie in \<open>[0, num_buckets - 1]\<close>,
  provided that \<open>num_buckets\<close> is at least 4 in the bidirectional case, which keeps
  \<open>max_exact\<close> positive.
\<close>

theorem relative_position_bucket_bounded:
  assumes range: "list_all (list_all (\<lambda>rp. - 10000 \<le> rp \<and> rp \<le> 10000)) relative_position"
    and pos: "0 < num_buckets" and ev: "even num_buckets"
    and dist: "real_of_int num_buckets / 2 < real_of_int max_distance"
    and bidi: "bidirectional \<longrightarrow> 4 \<le> num_buckets"
  shows "\<exists>buckets.
           relative_position_bucket relative_position bidirectional num_buckets max_distance
             = Inr buckets
         \<and> map length buckets = map length relative_position
         \<and> list_all (list_all (\<lambda>b. 0 \<le> b \<and> b \<le> num_buckets - 1)) buckets"
proof (cases bidirectional)
  case True
  define nb where "nb = num_buckets div 2"
  define me where "me = nb div 2"
  have nb2: "2 * nb = num_buckets" using ev by (auto simp: nb_def)
  have me1: "1 \<le> me" using bidi True nb2 by (simp add: me_def nb_def)
  have me_le: "me \<le> nb - 1" using me1 by (simp add: me_def)
  have md: "me < max_distance" using dist me_le nb2 by linarith
  have ratio: "\<not> real_of_int max_distance / real_of_int me \<le> 0"
    using md me1 by (simp add: divide_le_0_iff)
  have res: "relative_position_bucket relative_position bidirectional num_buckets max_distance
      = Inr (map (map (bucket_of True nb me max_distance)) relative_position)"
    using True me1 ratio by (simp add: relative_position_bucket_def Let_def nb_def me_def)
  have "0 \<le> bucket_of True nb me max_distance rp
        \<and> bucket_of True nb me max_distance rp \<le> num_buckets - 1" for rp
    using bucket_of_bounds(2)[OF me1 me_le md, of rp] nb2 by simp
  then show ?thesis
    unfolding res by (simp add: list_all_iff o_def)
next
  case False
  define me where "me = num_buckets div 2"
  have me2: "2 * me = num_buckets" using ev by (auto simp: me_def)
  have me1: "1 \<le> me" using pos me2 by linarith
  have me_le: "me \<le> num_buckets - 1" using me1 me2 by linarith
  have md: "me < max_distance" using dist me2 by linarith
  have ratio: "\<not> real_of_int max_distance / real_of_int me \<le> 0"
    using md me1 by (simp add: divide_le_0_iff)
  have res: "relative_position_bucket relative_position bidirectional num_buckets max_distance
      = Inr (map (map (bucket_of False num_buckets me max_distance)) relative_position)"
    using False me1 ratio by (simp add: relative_position_bucket_def Let_def me_def)
  have "0 \<le> bucket_of False num_buckets me max_distance rp
        \<and> bucket_of False num_buckets me max_distance rp \<le> num_buckets - 1" for rp
    using bucket_of_bounds(1)[OF me1 me_le md, of rp] by simp
  then show ?thesis
    unfolding res by (simp add: list_all_iff o_def)
qed

theorem relative_position_bucket_bounded_witness:
  "\<exists>buckets. relative_position_bucket [[- 3, 0, 5, 200]] True 32 128 = Inr buckets
     \<and> map length buckets = map length [[- 3, 0, 5, 200 :: int]]
     \<and> list_all (list_all (\<lambda>b. 0 \<le> b \<and> b \<le> 31)) buckets"
  using relative_position_bucket_bounded [of "[[- 3, 0, 5, 200]]" 32 128 True] by simp

text \<open>
  With two buckets and bidirectional attention \<open>max_exact\<close> is 0 and the Python division
  \<^verbatim>\<open>max_distance / max_exact\<close> raises: no bucket is returned.
\<close>

theorem relative_position_bucket_two_buckets_raises:
  "relative_position_bucket [[1]] True 2 128 = Inl ZeroDivisionError"
  by (simp add: relative_position_bucket_def)

section \<open>Properties of the layer normalisation\<close>











section \<open>The forward pass without a position bias and without a mask\<close>

lemma resolve_without_bias_and_mask:
  "resolve_position_bias self rsl kl tgt cache None None \<noteq> Inr pb"
  by (auto simp: resolve_position_bias_def bind_r_eq_Inr Let_def)

lemma resolve_without_bias_and_mask_error:
  assumes "has_relative_attention_bias self \<longrightarrow> (\<exists>b. compute_bias self rsl kl = Inr b)"
  shows "resolve_position_bias self rsl kl tgt cache None None = Inl AttributeError"
  using assms by (auto simp: resolve_position_bias_def Let_def)

text \<open>
  Claim C10.  A call of \<^verbatim>\<open>forward\<close> with \<^verbatim>\<open>position_bias=None\<close> and
  \<^verbatim>\<open>attention_mask=None\<close> never returns an output: whatever the other arguments, the
  result is an error.  When the projections, the product of query and key and the
  computation of the bias succeed, the error is the \<^verbatim>\<open>AttributeError\<close> of reading
  \<^verbatim>\<open>attention_mask.sbp\<close> of the absent mask.
\<close>

theorem forward_without_bias_and_mask_raises:
  "(\<exists>e. MultiheadAttention_forward self hidden_states encoder_states None past_key_value
            use_cache None query_length = Inl e)
   \<and> (\<forall>query key val real_seq_length key_length attention_scores.
        project_qkv self hidden_states encoder_states past_key_value query_length
          = Inr (query, key, val, real_seq_length, key_length)
        \<longrightarrow> matmul_transpose_b query key = Inr attention_scores
        \<longrightarrow> (has_relative_attention_bias self
             \<longrightarrow> (\<exists>b. compute_bias self real_seq_length key_length = Inr b))
        \<longrightarrow> MultiheadAttention_forward self hidden_states encoder_states None past_key_value
              use_cache None query_length = Inl AttributeError)"
proof (intro conjI allI impI)
  have "attention_scores_and_bias self hidden_states encoder_states None past_key_value
          use_cache None query_length \<noteq> Inr x" for x
    by (auto simp: attention_scores_and_bias_def bind_r_eq_Inr Let_def
        resolve_without_bias_and_mask)
  then have "MultiheadAttention_forward self hidden_states encoder_states None past_key_value
            use_cache None query_length \<noteq> Inr r" for r
    by (auto simp: MultiheadAttention_forward_def bind_r_eq_Inr Let_def)
  then show "\<exists>e. MultiheadAttention_forward self hidden_states encoder_states None past_key_value
            use_cache None query_length = Inl e"
    by (cases "MultiheadAttention_forward self hidden_states encoder_states None past_key_value
            use_cache None query_length") auto
next
  fix query key val real_seq_length key_length attention_scores
  assume "project_qkv self hidden_states encoder_states past_key_value query_length
          = Inr (query, key, val, real_seq_length, key_length)"
    and "matmul_transpose_b query key = Inr attention_scores"
    and "has_relative_attention_bias self
             \<longrightarrow> (\<exists>b. compute_bias self real_seq_length key_length = Inr b)"
  then show "MultiheadAttention_forward self hidden_states encoder_states None past_key_value
              use_cache None query_length = Inl AttributeError"
    by (simp add: MultiheadAttention_forward_def attention_scores_and_bias_def Let_def
        resolve_without_bias_and_mask_error)
qed



theorem forward_without_bias_and_mask_raises_witness:
  "MultiheadAttention_forward example_self_attention [[[0]]] None None None False None None
     = Inl AttributeError"
proof -
  have p: "project_qkv example_self_attention [[[0]]] None None None
             = Inr ([[[[0]]]], [[[[0]]]], [[[[0]]]], 1, 1)"
    by (simp add: example_self_attention_def eval_defs)
  have m: "matmul_transpose_b [[[[0]]]] [[[[0]]]] = Inr [[[[0]]]]"
    by (simp add: eval_defs)
  have h: "has_relative_attention_bias example_self_attention
             \<Longrightarrow> \<exists>b. compute_bias example_self_attention 1 1 = Inr b"
    by (simp add: example_self_attention_def)
  show ?thesis
    using forward_without_bias_and_mask_raises [THEN conjunct2, rule_format, OF p m h] .
qed

section \<open>The source of key and value\<close>

lemma Linear_error: "Linear w x = Inl e \<Longrightarrow> e = ShapeError"
  by (simp add: Linear_def split: if_splits)

lemma view_permute_error: "view_permute bsz n k x = Inl e \<Longrightarrow> e = ShapeError"
  by (simp add: view_permute_def Let_def split: if_splits)

lemma cat_dim2_error: "cat_dim2 a b = Inl e \<Longrightarrow> e = ShapeError"
  by (simp add: cat_dim2_def split: if_splits)

lemma project_qkv_ValueError:
  assumes "project_qkv self hidden_states encoder_states past_key_value query_length
             = Inl ValueError"
  shows "is_cross_attention self \<and> past_key_value = None \<and> encoder_states = None"
  using assms
  by (auto simp: project_qkv_def Let_def bind_r_eq_Inl
      split: option.splits if_splits
      dest: Linear_error view_permute_error cat_dim2_error)

lemma project_qkv_cross_none:
  assumes "is_cross_attention self"
  shows "\<exists>e. project_qkv self hidden_states None None query_length = Inl e"
proof (cases "project_qkv self hidden_states None None query_length")
  case (Inr x)
  then show ?thesis
    using assms by (auto simp: project_qkv_def Let_def bind_r_eq_Inr)
qed simp

lemma project_qkv_cross_none_ValueError:
  assumes "is_cross_attention self"
    and "Linear (query_weight self) hidden_states = Inr q0"
    and "view_permute (length hidden_states) (num_heads self) (head_size self) q0 = Inr query"
  shows "project_qkv self hidden_states None None query_length = Inl ValueError"
  using assms by (simp add: project_qkv_def Let_def)

lemma project_qkv_cross_past:
  assumes "is_cross_attention self"
    and "project_qkv self hidden_states encoder_states (Some [k, v]) query_length
           = Inr (query, key, val, real_seq_length, key_length)"
  shows "key = k \<and> val = v"
  using assms by (auto simp: project_qkv_def Let_def bind_r_eq_Inr)

lemma forward_present:
  assumes "MultiheadAttention_forward self hidden_states encoder_states attention_mask
             past_key_value use_cache position_bias query_length = Inr r"
  shows "\<exists>query key val real_seq_length key_length.
           project_qkv self hidden_states encoder_states past_key_value query_length
             = Inr (query, key, val, real_seq_length, key_length)
           \<and> present r = (if use_cache then Some (key, val) else None)"
  using assms
  by (auto simp: MultiheadAttention_forward_def attention_scores_and_bias_def Let_def
      bind_r_eq_Inr)

lemma forward_error_of_project:
  assumes "project_qkv self hidden_states encoder_states past_key_value query_length = Inl e"
  shows "MultiheadAttention_forward self hidden_states encoder_states attention_mask
             past_key_value use_cache position_bias query_length = Inl e"
  using assms
  by (simp add: MultiheadAttention_forward_def attention_scores_and_bias_def Let_def)

text \<open>
  Claim C7.  In a cross-attention, a call with neither \<^verbatim>\<open>past_key_value\<close> nor
  \<^verbatim>\<open>encoder_states\<close> raises, with \<^verbatim>\<open>ValueError\<close> once the query projection has been
  computed; the selection of key and value raises \<^verbatim>\<open>ValueError\<close> in no other case; a
  supplied pair of cached key and value is used as it is, and returned as it is in the
  cache when \<^verbatim>\<open>use_cache\<close> is set.
\<close>

theorem cross_attention_key_value_source:
  assumes cross: "is_cross_attention self"
  shows "(\<exists>e. MultiheadAttention_forward self hidden_states None attention_mask None
                 use_cache position_bias query_length = Inl e)
    \<and> (\<forall>q0 query. Linear (query_weight self) hidden_states = Inr q0
          \<longrightarrow> view_permute (length hidden_states) (num_heads self) (head_size self) q0
                = Inr query
          \<longrightarrow> MultiheadAttention_forward self hidden_states None attention_mask None
                use_cache position_bias query_length = Inl ValueError)
    \<and> (project_qkv self hidden_states encoder_states past_key_value query_length
          = Inl ValueError
        \<longrightarrow> past_key_value = None \<and> encoder_states = None)
    \<and> (\<forall>k v query key val real_seq_length key_length.
          project_qkv self hidden_states encoder_states (Some [k, v]) query_length
            = Inr (query, key, val, real_seq_length, key_length)
          \<longrightarrow> key = k \<and> val = v)
    \<and> (\<forall>k v r.
          MultiheadAttention_forward self hidden_states encoder_states attention_mask
            (Some [k, v]) True position_bias query_length = Inr r
          \<longrightarrow> present r = Some (k, v))"
proof (intro conjI allI impI)
  obtain e where "project_qkv self hidden_states None None query_length = Inl e"
    using project_qkv_cross_none[OF cross] by blast
  then show "\<exists>e. MultiheadAttention_forward self hidden_states None attention_mask None
                 use_cache position_bias query_length = Inl e"
    using forward_error_of_project by blast
next
  fix q0 query
  assume "Linear (query_weight self) hidden_states = Inr q0"
    and "view_permute (length hidden_states) (num_heads self) (head_size self) q0 = Inr query"
  then show "MultiheadAttention_forward self hidden_states None attention_mask None
                use_cache position_bias query_length = Inl ValueError"
    using project_qkv_cross_none_ValueError[OF cross] forward_error_of_project by blast
next
  assume "project_qkv self hidden_states encoder_states past_key_value query_length
          = Inl ValueError"
  then show "past_key_value = None" "encoder_states = None"
    using project_qkv_ValueError by blast+
next
  fix k v query key val real_seq_length key_length
  assume "project_qkv self hidden_states encoder_states (Some [k, v]) query_length
            = Inr (query, key, val, real_seq_length, key_length)"
  then show "key = k" "val = v"
    using project_qkv_cross_past[OF cross] by blast+
next
  fix k v r
  assume "MultiheadAttention_forward self hidden_states encoder_states attention_mask
            (Some [k, v]) True position_bias query_length = Inr r"
  then show "present r = Some (k, v)"
    using forward_present project_qkv_cross_past[OF cross] by fastforce
qed



lemma example_cross_step:
  "MultiheadAttention_forward example_cross_attention [[[0]]] (Some [[[0]]]) (Some [[[[1]]]])
     (Some [[[[[3]]]], [[[[4]]]]]) True None (Some 1)
   = Inr \<lparr>attention_output = [[[4]]],
           present = Some ([[[[3]]]], [[[[4]]]]),
           position_bias_out = [[[[0]]]]\<rparr>"
  by (simp add: example_cross_attention_def eval_defs)

theorem cross_attention_key_value_source_witness:
  "MultiheadAttention_forward example_cross_attention [[[0]]] None (Some [[[[1]]]]) None
     False None None = Inl ValueError
   \<and> (\<exists>r. MultiheadAttention_forward example_cross_attention [[[0]]] (Some [[[0]]])
            (Some [[[[1]]]]) (Some [[[[[3]]]], [[[[4]]]]]) True None (Some 1) = Inr r
          \<and> present r = Some ([[[[3]]]], [[[[4]]]]))"
proof -
  have c: "is_cross_attention example_cross_attention"
    by (simp add: example_cross_attention_def)
  have q0: "Linear (query_weight example_cross_attention) [[[0]]] = Inr [[[0]]]"
    by (simp add: example_cross_attention_def eval_defs)
  have q: "view_permute (length [[[0 :: real]]]) (num_heads example_cross_attention)
             (head_size example_cross_attention) [[[0]]] = Inr [[[[0]]]]"
    by (simp add: example_cross_attention_def eval_defs)
  note src = cross_attention_key_value_source [OF c]
  have 1: "MultiheadAttention_forward example_cross_attention [[[0]]] None (Some [[[[1]]]])
             None False None None = Inl ValueError"
    using src [THEN conjunct2, THEN conjunct1, rule_format, OF q0 q] .
  have 2: "present \<lparr>attention_output = [[[4]]],
           present = Some ([[[[3]]]], [[[[4]]]]),
           position_bias_out = [[[[0]]]]\<rparr> = Some ([[[[3]]]], [[[[4]]]])"
    using src [THEN conjunct2, THEN conjunct2, THEN conjunct2, THEN conjunct2, rule_format,
        OF example_cross_step] .
  show ?thesis using 1 2 example_cross_step by blast
qed

section \<open>Growth of the self-attention cache\<close>

lemma length_concat_const:
  "list_all (\<lambda>b. length b = n) x \<Longrightarrow> length (concat x) = length x * n"
  by (induction x) simp_all

lemma regroup_lengths:
  assumes "length rows = bsz * n" and "0 < bsz"
  shows "length (regroup bsz rows) = bsz"
    and "list_all (\<lambda>batch. length batch = n) (regroup bsz rows)"
proof -
  have t: "length rows div bsz = n" using assms by simp
  show "length (regroup bsz rows) = bsz" by (simp add: regroup_def Let_def)
  have "min n (bsz * n - b * n) = n" if "b < bsz" for b
  proof -
    have "(b + 1) * n \<le> bsz * n" using that by (intro mult_le_mono1) simp
    then show ?thesis by simp
  qed
  then show "list_all (\<lambda>batch. length batch = n) (regroup bsz rows)"
    by (simp add: regroup_def Let_def t list_all_iff assms(1) min.commute)
qed

lemma view_permute_shape:
  assumes "view_permute bsz h k x = Inr t" and "length x = bsz"
    and "list_all (\<lambda>b. length b = n) x"
  shows "length t = bsz"
    and "list_all (\<lambda>batch. length batch = h \<and> list_all (\<lambda>head. length head = n) batch) t"
proof -
  from assms(1) have bsz: "0 < bsz"
    and t: "t = map (\<lambda>batch. map (\<lambda>hd. map (\<lambda>row. take k (drop (hd * k) row)) batch) [0..<h])
                  (regroup bsz (concat x))"
    by (auto simp: view_permute_def Let_def split: if_splits)
  have len: "length (concat x) = bsz * n"
    using length_concat_const[OF assms(3)] assms(2) by simp
  show "length t = bsz" using regroup_lengths(1)[OF len bsz] by (simp add: t)
  show "list_all (\<lambda>batch. length batch = h \<and> list_all (\<lambda>head. length head = n) batch) t"
    using regroup_lengths(2)[OF len bsz] by (simp add: t list_all_iff)
qed

lemma view_permute_heads_pos:
  "view_permute bsz h k x = Inr t \<Longrightarrow> 0 < bsz \<and> 0 < h"
  by (auto simp: view_permute_def Let_def split: if_splits)

lemma Linear_shape:
  assumes "Linear w x = Inr y"
  shows "length y = length x" and "list_all (\<lambda>b. length b = n) x \<Longrightarrow> list_all (\<lambda>b. length b = n) y"
  using assms by (auto simp: Linear_def list_all_iff split: if_splits)

lemma chunk_last_shape:
  "length (chunk_last m i t) = length t"
  "list_all (\<lambda>batch. length batch = h \<and> list_all (\<lambda>head. length head = n) batch) t
   \<Longrightarrow> list_all (\<lambda>batch. length batch = h \<and> list_all (\<lambda>head. length head = n) batch)
         (chunk_last m i t)"
  by (auto simp: chunk_last_def list_all_iff)

lemma cat_dim2_grows:
  assumes "cat_dim2 a b = Inr c"
    and "list_all (\<lambda>batch. length batch = h \<and> list_all (\<lambda>head. length head = n) batch) b"
  shows "list_all2 (list_all2 (\<lambda>new old. length new = length old + n)) c a"
proof -
  from assms(1) have c: "c = map2 (map2 (@)) a b" and len: "length a = length b"
    and inner: "list_all2 (\<lambda>x y. length x = length y) a b"
    by (auto simp: cat_dim2_def list_all2_conv_all_nth split: if_splits)
  show ?thesis
    unfolding c using len inner assms(2)
    by (auto simp: list_all2_conv_all_nth list_all_length)
qed

lemma size2_grows:
  assumes "list_all2 (list_all2 (\<lambda>new old. length new = length old + n)) c a"
    and "a \<noteq> []" and "list_all (\<lambda>batch. batch \<noteq> []) a"
  shows "size2 c = size2 a + n"
proof -
  obtain a0 as where a: "a = a0 # as" using assms(2) by (cases a) auto
  obtain c0 cs where c: "c = c0 # cs" using assms(1) a by (cases c) auto
  have a0: "a0 \<noteq> []" using assms(3) a by simp
  then obtain x xs where a0': "a0 = x # xs" by (cases a0) auto
  have "list_all2 (\<lambda>new old. length new = length old + n) c0 a0"
    using assms(1) a c by simp
  then obtain y ys where "c0 = y # ys" "length y = length x + n"
    using a0' by (cases c0) auto
  then show ?thesis by (simp add: size2_def size1_def a c a0')
qed

lemma returned_cache_grows_by_one:
  assumes self: "\<not> is_cross_attention self"
    and one: "list_all (\<lambda>batch. length batch = 1) hidden_states"
    and fwd: "MultiheadAttention_forward self hidden_states encoder_states attention_mask
                (Some [past_key, past_value]) True position_bias query_length = Inr r"
  shows "\<exists>key val. present r = Some (key, val)
     \<and> list_all2 (list_all2 (\<lambda>new old. length new = length old + 1)) key past_key
     \<and> list_all2 (list_all2 (\<lambda>new old. length new = length old + 1)) val past_value
     \<and> size2 key = size2 past_key + 1 \<and> size2 val = size2 past_value + 1"
proof -
  from forward_present[OF fwd] obtain query key val real_seq_length key_length
    where proj: "project_qkv self hidden_states encoder_states (Some [past_key, past_value])
                   query_length = Inr (query, key, val, real_seq_length, key_length)"
      and pres: "present r = Some (key, val)"
    by auto
  from proj self obtain y qkv
    where lin: "Linear (query_key_value_weight self) hidden_states = Inr y"
      and view: "view_permute (length hidden_states) (num_heads self) (3 * head_size self) y
                   = Inr qkv"
      and ck: "cat_dim2 past_key (chunk_last 3 1 qkv) = Inr key"
      and cv: "cat_dim2 past_value (chunk_last 3 2 qkv) = Inr val"
    by (auto simp: project_qkv_def Let_def bind_r_eq_Inr)
  have shape: "list_all (\<lambda>batch. length batch = num_heads self
                   \<and> list_all (\<lambda>head. length head = 1) batch) qkv"
    and len: "length qkv = length hidden_states"
    using view_permute_shape[OF view Linear_shape(1)[OF lin] Linear_shape(2)[OF lin one]]
    by auto
  have pos: "0 < length hidden_states" "0 < num_heads self"
    using view_permute_heads_pos[OF view] by auto
  have gk: "list_all2 (list_all2 (\<lambda>new old. length new = length old + 1)) key past_key"
    using cat_dim2_grows[OF ck chunk_last_shape(2)[OF shape]] .
  have gv: "list_all2 (list_all2 (\<lambda>new old. length new = length old + 1)) val past_value"
    using cat_dim2_grows[OF cv chunk_last_shape(2)[OF shape]] .
  have pk: "past_key \<noteq> []" "list_all (\<lambda>batch. batch \<noteq> []) past_key"
    using ck pos shape len
    by (auto simp: cat_dim2_def chunk_last_def list_all2_conv_all_nth list_all_length
        split: if_splits)
  have pv: "past_value \<noteq> []" "list_all (\<lambda>batch. batch \<noteq> []) past_value"
    using cv pos shape len
    by (auto simp: cat_dim2_def chunk_last_def list_all2_conv_all_nth list_all_length
        split: if_splits)
  show ?thesis
    using pres gk gv size2_grows[OF gk pk] size2_grows[OF gv pv] by simp
qed

lemma Linear_ok:
  assumes "list_all (list_all (\<lambda>row. length row = n)) x"
    and "list_all (\<lambda>wr. length wr = n) w"
  shows "Linear w x = Inr (map (map (\<lambda>row. map (\<lambda>wr. dot wr row) w)) x)"
  using assms by (auto simp: Linear_def list_all_iff)

lemma regroup_set:
  assumes "b \<in> set (regroup bsz rows)"
  shows "set b \<subseteq> set rows"
  using assms by (auto simp: regroup_def Let_def dest!: in_set_takeD in_set_dropD)

lemma length_piece:
  assumes "i < h" and "length row = h * k"
  shows "length (take k (drop (i * k) row)) = k"
proof -
  have "Suc i * k \<le> h * k" using assms(1) by (intro mult_le_mono1) simp
  then have "i * k + k \<le> length row" using assms(2) by (simp add: add.commute)
  then show ?thesis by simp
qed

lemma view_permute_ok:
  assumes bsz: "length x = bsz" "0 < bsz" and pos: "0 < h" "0 < k"
    and one: "list_all (\<lambda>b. length b = n) x"
    and rows: "list_all (list_all (\<lambda>row. length row = h * k)) x"
  shows "\<exists>t. view_permute bsz h k x = Inr t \<and> rows_of_length k t"
proof -
  have len: "length (concat x) = bsz * n"
    using length_concat_const[OF one] bsz by simp
  have all: "list_all (\<lambda>row. length row = h * k) (concat x)"
    using rows by (auto simp: list_all_iff)
  define t where "t = map (\<lambda>batch.
                    map (\<lambda>hd. map (\<lambda>row. take k (drop (hd * k) row)) batch) [0..<h])
                  (regroup bsz (concat x))"
  have ok: "view_permute bsz h k x = Inr t"
    using bsz pos len all by (simp add: view_permute_def Let_def t_def)
  have "length (take k (drop (i * k) row)) = k" if "i < h" "length row = h * k" for i row
    using length_piece[OF that] .
  moreover have "length row = h * k" if "b \<in> set (regroup bsz (concat x))" "row \<in> set b"
    for b row
    using regroup_set[OF that(1)] that(2) all by (auto simp: list_all_iff)
  ultimately have "rows_of_length k t"
    unfolding rows_of_length_def t_def list_all_iff
    by (auto simp del: length_take length_drop) blast
  then show ?thesis using ok by blast
qed

lemma rows_of_length_map:
  assumes "rows_of_length n t" and "\<And>r. length r = n \<Longrightarrow> length (f r) = m"
  shows "rows_of_length m (map (map (map f)) t)"
  using assms by (auto simp: rows_of_length_def list_all_iff)

lemma chunk_last_rows:
  assumes "rows_of_length (3 * k) t" and "i < 3"
  shows "rows_of_length k (chunk_last 3 i t)"
proof -
  have piece: "length (let c = (length r + 3 - 1) div 3 in take c (drop (i * c) r)) = k"
    if "length r = 3 * k" for r :: "real list"
  proof -
    have "(length r + 3 - 1) div 3 = k" using that by simp
    then show ?thesis
      unfolding Let_def using length_piece[OF assms(2) that] by (simp only:)
  qed
  show ?thesis
    unfolding chunk_last_def by (rule rows_of_length_map[OF assms(1)]) (rule piece)
qed

lemma cat_dim2_ok:
  assumes "length a = length b"
    and "list_all (\<lambda>batch. length batch = h) a" and "list_all (\<lambda>batch. length batch = h) b"
    and "rows_of_length k a" and "rows_of_length k b"
  shows "cat_dim2 a b = Inr (map2 (map2 (@)) a b)"
proof -
  have "list_all2 (\<lambda>x y. length x = length y
             \<and> list_all2 (\<lambda>x' y'. list_all (\<lambda>r. list_all (\<lambda>s. length r = length s) y') x') x y) a b"
    using assms
    by (auto simp: list_all2_conv_all_nth list_all_length rows_of_length_def)
  then show ?thesis using assms(1) by (simp add: cat_dim2_def)
qed

lemma project_qkv_decode_step:
  assumes self: "\<not> is_cross_attention self"
    and one: "list_all (\<lambda>batch. length batch = 1) hidden_states"
    and ne: "hidden_states \<noteq> []"
    and rows: "list_all (list_all (\<lambda>row. length row = hidden_size self)) hidden_states"
    and w: "length (query_key_value_weight self) = 3 * hidden_size self"
           "list_all (\<lambda>wr. length wr = hidden_size self) (query_key_value_weight self)"
    and heads: "hidden_size self = num_heads self * head_size self"
               "0 < num_heads self" "0 < head_size self"
    and pk: "length past_key = length hidden_states"
            "list_all (\<lambda>batch. length batch = num_heads self) past_key"
            "rows_of_length (head_size self) past_key"
    and pv: "length past_value = length hidden_states"
            "list_all (\<lambda>batch. length batch = num_heads self) past_value"
            "rows_of_length (head_size self) past_value"
  shows "\<exists>query key val real_seq_length key_length.
           project_qkv self hidden_states encoder_states (Some [past_key, past_value])
             query_length = Inr (query, key, val, real_seq_length, key_length)
         \<and> list_all2 (list_all2 (\<lambda>new old. length new = length old + 1)) key past_key
         \<and> list_all2 (list_all2 (\<lambda>new old. length new = length old + 1)) val past_value"
proof -
  define y where "y = map (map (\<lambda>row. map (\<lambda>wr. dot wr row) (query_key_value_weight self)))
                        hidden_states"
  have lin: "Linear (query_key_value_weight self) hidden_states = Inr y"
    unfolding y_def by (rule Linear_ok[OF rows w(2)])
  have y_len: "length y = length hidden_states" by (simp add: y_def)
  have y_one: "list_all (\<lambda>b. length b = 1) y"
    using one by (simp add: y_def list_all_iff)
  have y_rows: "list_all (list_all (\<lambda>row. length row = num_heads self * (3 * head_size self))) y"
    using w(1) heads(1) by (simp add: y_def list_all_iff)
  have k3: "0 < 3 * head_size self" using heads(3) by simp
  from view_permute_ok[OF y_len _ heads(2) k3 y_one y_rows] ne
  obtain qkv where view: "view_permute (length hidden_states) (num_heads self)
                            (3 * head_size self) y = Inr qkv"
    and qkv_rows: "rows_of_length (3 * head_size self) qkv"
    by auto
  have shape: "list_all (\<lambda>batch. length batch = num_heads self
                   \<and> list_all (\<lambda>head. length head = 1) batch) qkv"
    and len: "length qkv = length hidden_states"
    using view_permute_shape[OF view y_len y_one] by auto
  have heads_of: "list_all (\<lambda>batch. length batch = num_heads self) (chunk_last 3 i qkv)" for i
    using chunk_last_shape(2)[OF shape, of 3 i] by (auto simp: list_all_iff)
  have ck: "cat_dim2 past_key (chunk_last 3 1 qkv)
              = Inr (map2 (map2 (@)) past_key (chunk_last 3 1 qkv))"
    by (rule cat_dim2_ok[OF _ pk(2) heads_of pk(3) chunk_last_rows[OF qkv_rows]])
       (simp_all add: pk(1) len chunk_last_shape(1))
  have cv: "cat_dim2 past_value (chunk_last 3 2 qkv)
              = Inr (map2 (map2 (@)) past_value (chunk_last 3 2 qkv))"
    by (rule cat_dim2_ok[OF _ pv(2) heads_of pv(3) chunk_last_rows[OF qkv_rows]])
       (simp_all add: pv(1) len chunk_last_shape(1))
  have proj: "project_qkv self hidden_states encoder_states (Some [past_key, past_value])
             query_length
      = Inr (chunk_last 3 0 qkv, map2 (map2 (@)) past_key (chunk_last 3 1 qkv),
             map2 (map2 (@)) past_value (chunk_last 3 2 qkv),
             size1 hidden_states
               + (case query_length of None \<Rightarrow> size2 past_key | Some n \<Rightarrow> n),
             (case encoder_states of
                None \<Rightarrow> size1 hidden_states
                  + (case query_length of None \<Rightarrow> size2 past_key | Some n \<Rightarrow> n)
              | Some e \<Rightarrow> size1 e))"
    using self
    by (simp add: project_qkv_def Let_def lin view ck[unfolded One_nat_def] cv
        split: option.splits)
  show ?thesis
    using proj cat_dim2_grows[OF ck chunk_last_shape(2)[OF shape]]
      cat_dim2_grows[OF cv chunk_last_shape(2)[OF shape]]
    by simp
qed

text \<open>
  Claim C5.  In a self-attention with \<^verbatim>\<open>use_cache\<close> set, a cache of key and value and a
  query of length 1 (every batch of \<open>hidden_states\<close> holds one position), the cache that
  \<^verbatim>\<open>forward\<close> returns is one position longer than the cache it was given, in every
  batch and head and so in the extent \<^verbatim>\<open>shape[2]\<close>.  The new pair is produced whenever
  the shapes fit: the rows of \<open>hidden_states\<close> and of the weight have \<open>hidden_size\<close>
  entries, \<open>hidden_size = num_heads * head_size\<close>, and the cached key and value have the
  batch size of \<open>hidden_states\<close>, \<open>num_heads\<close> heads and rows of \<open>head_size\<close> entries.
\<close>

theorem self_attention_cache_grows_by_one:
  assumes self: "\<not> is_cross_attention self"
    and one: "list_all (\<lambda>batch. length batch = 1) hidden_states"
  shows "(\<forall>r. MultiheadAttention_forward self hidden_states encoder_states attention_mask
                (Some [past_key, past_value]) True position_bias query_length = Inr r
          \<longrightarrow> (\<exists>key val. present r = Some (key, val)
                \<and> list_all2 (list_all2 (\<lambda>new old. length new = length old + 1)) key past_key
                \<and> list_all2 (list_all2 (\<lambda>new old. length new = length old + 1)) val
                    past_value
                \<and> size2 key = size2 past_key + 1 \<and> size2 val = size2 past_value + 1))
    \<and> (hidden_states \<noteq> []
        \<and> list_all (list_all (\<lambda>row. length row = hidden_size self)) hidden_states
        \<and> length (query_key_value_weight self) = 3 * hidden_size self
        \<and> list_all (\<lambda>wr. length wr = hidden_size self) (query_key_value_weight self)
        \<and> hidden_size self = num_heads self * head_size self
        \<and> 0 < num_heads self \<and> 0 < head_size self
        \<and> length past_key = length hidden_states
        \<and> list_all (\<lambda>batch. length batch = num_heads self) past_key
        \<and> rows_of_length (head_size self) past_key
        \<and> length past_value = length hidden_states
        \<and> list_all (\<lambda>batch. length batch = num_heads self) past_value
        \<and> rows_of_length (head_size self) past_value
        \<longrightarrow> (\<exists>query key val real_seq_length key_length.
               project_qkv self hidden_states encoder_states (Some [past_key, past_value])
                 query_length = Inr (query, key, val, real_seq_length, key_length)
             \<and> list_all2 (list_all2 (\<lambda>new old. length new = length old + 1)) key past_key
             \<and> list_all2 (list_all2 (\<lambda>new old. length new = length old + 1)) val
                 past_value))"
proof (intro conjI allI impI)
  fix r
  assume "MultiheadAttention_forward self hidden_states encoder_states attention_mask
            (Some [past_key, past_value]) True position_bias query_length = Inr r"
  from returned_cache_grows_by_one[OF self one this]
  show "\<exists>key val. present r = Some (key, val)
          \<and> list_all2 (list_all2 (\<lambda>new old. length new = length old + 1)) key past_key
          \<and> list_all2 (list_all2 (\<lambda>new old. length new = length old + 1)) val past_value
          \<and> size2 key = size2 past_key + 1 \<and> size2 val = size2 past_value + 1" .
next
  assume wf: "hidden_states \<noteq> []
        \<and> list_all (list_all (\<lambda>row. length row = hidden_size self)) hidden_states
        \<and> length (query_key_value_weight self) = 3 * hidden_size self
        \<and> list_all (\<lambda>wr. length wr = hidden_size self) (query_key_value_weight self)
        \<and> hidden_size self = num_heads self * head_size self
        \<and> 0 < num_heads self \<and> 0 < head_size self
        \<and> length past_key = length hidden_states
        \<and> list_all (\<lambda>batch. length batch = num_heads self) past_key
        \<and> rows_of_length (head_size self) past_key
        \<and> length past_value = length hidden_states
        \<and> list_all (\<lambda>batch. length batch = num_heads self) past_value
        \<and> rows_of_length (head_size self) past_value"
  show "\<exists>query key val real_seq_length key_length.
          project_qkv self hidden_states encoder_states (Some [past_key, past_value])
            query_length = Inr (query, key, val, real_seq_length, key_length)
          \<and> list_all2 (list_all2 (\<lambda>new old. length new = length old + 1)) key past_key
          \<and> list_all2 (list_all2 (\<lambda>new old. length new = length old + 1)) val past_value"
    using wf
      project_qkv_decode_step[OF self one, where encoder_states = encoder_states
        and past_key = past_key and past_value = past_value and query_length = query_length]
    by blast
qed

lemma example_decode_step:
  "MultiheadAttention_forward example_self_attention [[[0]]] None (Some [[[[1, 1]]]])
     (Some [[[[[0]]]], [[[[0]]]]]) True None None
   = Inr \<lparr>attention_output = [[[0]]],
           present = Some ([[[[0], [0]]]], [[[[0], [0]]]]),
           position_bias_out = [[[[0, 0]]]]\<rparr>"
  by (simp add: example_self_attention_def eval_defs)

theorem self_attention_cache_grows_by_one_witness:
  "(\<exists>r key val.
      MultiheadAttention_forward example_self_attention [[[0]]] None (Some [[[[1, 1]]]])
        (Some [[[[[0]]]], [[[[0]]]]]) True None None = Inr r
    \<and> present r = Some (key, val)
    \<and> size2 key = size2 [[[[0 :: real]]]] + 1 \<and> size2 val = size2 [[[[0 :: real]]]] + 1)
   \<and> (\<exists>query key val real_seq_length key_length.
        project_qkv example_self_attention [[[0]]] None (Some [[[[[0]]]], [[[[0]]]]]) None
          = Inr (query, key, val, real_seq_length, key_length)
      \<and> list_all2 (list_all2 (\<lambda>new old. length new = length old + 1)) key
          [[[[0 :: real]]]]
      \<and> list_all2 (list_all2 (\<lambda>new old. length new = length old + 1)) val
          [[[[0 :: real]]]])"
proof -
  have a: "\<not> is_cross_attention example_self_attention"
    by (simp add: example_self_attention_def)
  have b: "list_all (\<lambda>batch. length batch = 1) [[[0 :: real]]]"
    by simp
  note src = self_attention_cache_grows_by_one [OF a b]
  have 1: "\<exists>r key val.
      MultiheadAttention_forward example_self_attention [[[0]]] None (Some [[[[1, 1]]]])
        (Some [[[[[0]]]], [[[[0]]]]]) True None None = Inr r
    \<and> present r = Some (key, val)
    \<and> size2 key = size2 [[[[0 :: real]]]] + 1 \<and> size2 val = size2 [[[[0 :: real]]]] + 1"
    using src [THEN conjunct1, rule_format, OF example_decode_step] example_decode_step
    by blast
  have 2: "\<exists>query key val real_seq_length key_length.
        project_qkv example_self_attention [[[0]]] None (Some [[[[[0]]]], [[[[0]]]]]) None
          = Inr (query, key, val, real_seq_length, key_length)
      \<and> list_all2 (list_all2 (\<lambda>new old. length new = length old + 1)) key
          [[[[0 :: real]]]]
      \<and> list_all2 (list_all2 (\<lambda>new old. length new = length old + 1)) val
          [[[[0 :: real]]]]"
    by (rule src [THEN conjunct2, rule_format])
       (simp add: example_self_attention_def rows_of_length_def)
  show ?thesis using 1 2 by blast
qed

section \<open>Broadcasting, element by element\<close>

lemma bmap2_nth:
  assumes "bcompat xs ys" and "i < length (bmap2 f xs ys)"
  shows "bmap2 f xs ys ! i = f (bnth xs i) (bnth ys i)"
    and "bnth xs i \<in> set xs" and "bnth ys i \<in> set ys"
  using assms
  by (auto simp: bcompat_def bmap2_def bnth_def split: if_splits)

lemma broadcast4_nth:
  assumes ok: "broadcast4 f a b = Inr c" and rng: "in_range4 c i j k l"
  shows "c ! i ! j ! k ! l = f (bat4 a i j k l) (bat4 b i j k l)"
proof -
  from ok have bc: "broadcastable4 a b"
    and c: "c = bmap2 (bmap2 (bmap2 (bmap2 f))) a b"
    by (auto simp: broadcast4_def split: if_splits)
  from rng have i: "i < length c" and j: "j < length (c ! i)"
    and k: "k < length (c ! i ! j)" and l: "l < length (c ! i ! j ! k)"
    by (auto simp: in_range4_def)
  have c0: "bcompat a b" using bc by (simp add: broadcastable4_def)
  note n0 = bmap2_nth[OF c0 i[unfolded c]]
  have ci: "c ! i = bmap2 (bmap2 (bmap2 f)) (bnth a i) (bnth b i)"
    using n0(1) by (simp add: c)
  have c1: "bcompat (bnth a i) (bnth b i)"
    and c2': "\<And>x y. x \<in> set (bnth a i) \<Longrightarrow> y \<in> set (bnth b i) \<Longrightarrow> bcompat x y
              \<and> (\<forall>r\<in>set x. \<forall>s\<in>set y. bcompat r s)"
    using bc n0(2,3) by (auto simp: broadcastable4_def list_all_iff)
  note n1 = bmap2_nth[OF c1 j[unfolded ci]]
  have cij: "c ! i ! j = bmap2 (bmap2 f) (bnth (bnth a i) j) (bnth (bnth b i) j)"
    using n1(1) by (simp add: ci)
  have c2: "bcompat (bnth (bnth a i) j) (bnth (bnth b i) j)"
    and c3': "\<And>r s. r \<in> set (bnth (bnth a i) j) \<Longrightarrow> s \<in> set (bnth (bnth b i) j)
               \<Longrightarrow> bcompat r s"
    using c2' n1(2,3) by auto
  note n2 = bmap2_nth[OF c2 k[unfolded cij]]
  have cijk: "c ! i ! j ! k = bmap2 f (bnth (bnth (bnth a i) j) k) (bnth (bnth (bnth b i) j) k)"
    using n2(1) by (simp add: cij)
  have c3: "bcompat (bnth (bnth (bnth a i) j) k) (bnth (bnth (bnth b i) j) k)"
    using c3' n2(2,3) by auto
  note n3 = bmap2_nth[OF c3 l[unfolded cijk]]
  show ?thesis using n3(1) by (simp add: cijk bat4_def)
qed


lemma bmap2_map_right: "bmap2 f xs (map g ys) = bmap2 (\<lambda>x y. f x (g y)) xs ys"
  by (auto simp: bmap2_def intro!: nth_equalityI)

lemma bmap2_map_left: "bmap2 f (map g xs) ys = bmap2 (\<lambda>x y. f (g x) y) xs ys"
  by (auto simp: bmap2_def intro!: nth_equalityI)

lemma bmap2_cong_all:
  assumes "\<And>x y. x \<in> set xs \<Longrightarrow> y \<in> set ys \<Longrightarrow> f x y = g x y"
  shows "bmap2 f xs ys = bmap2 g xs ys"
proof -
  have a: "length xs = 1 \<Longrightarrow> xs ! 0 \<in> set xs" by simp
  have b: "length ys = 1 \<Longrightarrow> ys ! 0 \<in> set ys" by simp
  have c: "map2 f xs ys = map2 g xs ys"
    using assms by (auto dest: set_zip_leftD set_zip_rightD)
  show ?thesis
    using assms a b by (simp add: bmap2_def c)
qed

lemma bmap2_fuse:
  assumes "bcompat xs ys"
  shows "bmap2 g (bmap2 f xs ys) ys = bmap2 (\<lambda>x y. g (f x y) y) xs ys"
  using assms
  by (auto simp: bcompat_def bmap2_def zip_map1 map_zip_map o_def split_def zip_same_conv_map
      intro!: nth_equalityI)

lemma broadcastable4_map4: "broadcastable4 a (map4 g m) = broadcastable4 a m"
  by (simp add: broadcastable4_def map4_def bcompat_def list_all_iff)

lemma broadcast4_map4_right:
  "broadcast4 f a (map4 g m) = broadcast4 (\<lambda>x y. f x (g y)) a m"
  by (simp add: broadcast4_def broadcastable4_map4) (simp add: map4_def bmap2_map_right)

lemma broadcastable4_map4_left: "broadcastable4 (map4 g a) m = broadcastable4 a m"
  by (simp add: broadcastable4_def map4_def bcompat_def list_all_iff)

lemma broadcast4_map4_left:
  "broadcast4 f (map4 g a) m = broadcast4 (\<lambda>x y. f (g x) y) a m"
  by (simp add: broadcast4_def broadcastable4_map4_left) (simp add: map4_def bmap2_map_left)

lemma bmap2_4_fuse:
  assumes "broadcastable4 a m"
  shows "bmap2 (bmap2 (bmap2 (bmap2 g))) (bmap2 (bmap2 (bmap2 (bmap2 f))) a m) m
         = bmap2 (bmap2 (bmap2 (bmap2 (\<lambda>x y. g (f x y) y)))) a m"
proof -
  have c0: "bcompat a m"
    and c1: "\<And>x y. x \<in> set a \<Longrightarrow> y \<in> set m \<Longrightarrow> bcompat x y"
    and c2: "\<And>x y x' y'. x \<in> set a \<Longrightarrow> y \<in> set m \<Longrightarrow> x' \<in> set x \<Longrightarrow> y' \<in> set y
              \<Longrightarrow> bcompat x' y'"
    and c3: "\<And>x y x' y' r s. x \<in> set a \<Longrightarrow> y \<in> set m \<Longrightarrow> x' \<in> set x \<Longrightarrow> y' \<in> set y
              \<Longrightarrow> r \<in> set x' \<Longrightarrow> s \<in> set y' \<Longrightarrow> bcompat r s"
    using assms by (auto simp: broadcastable4_def list_all_iff)
  show ?thesis
    unfolding bmap2_fuse[OF c0]
    apply (rule bmap2_cong_all)
    subgoal for x y
      unfolding bmap2_fuse[OF c1]
      apply (rule bmap2_cong_all)
      subgoal for x' y'
        unfolding bmap2_fuse[OF c2]
        apply (rule bmap2_cong_all)
        subgoal for r s
          using bmap2_fuse[OF c3] by blast
        done
      done
    done
qed

lemma mask_scores_fused:
  assumes "mask_scores c s m = Inr s'"
  shows "broadcast4 (\<lambda>x y. (case c of None \<Rightarrow> x | Some k \<Rightarrow> x * real_of_int k) * y
                            - 10000 * (1 - y)) s m = Inr s'"
proof -
  define s0 where "s0 = (case c of None \<Rightarrow> s | Some k \<Rightarrow> map4 (\<lambda>x. x * real_of_int k) s)"
  define sc where "sc = (\<lambda>x. case c of None \<Rightarrow> x | Some k \<Rightarrow> x * real_of_int k)"
  have s0: "s0 = map4 sc s"
    by (cases c) (simp_all add: s0_def sc_def map4_def)
  from assms obtain s1 where s1: "broadcast4 (*) s0 m = Inr s1"
    and s': "broadcast4 (\<lambda>x y. x - 10000 * (1 - y)) s1 m = Inr s'"
    by (auto simp: mask_scores_def Let_def bind_r_eq_Inr s0_def broadcast4_map4_right)
  from s1 have bc: "broadcastable4 s0 m" and s1_eq: "s1 = bmap2 (bmap2 (bmap2 (bmap2 (*)))) s0 m"
    by (auto simp: broadcast4_def split: if_splits)
  from s' have "s' = bmap2 (bmap2 (bmap2 (bmap2 (\<lambda>x y. x - 10000 * (1 - y))))) s1 m"
    by (auto simp: broadcast4_def split: if_splits)
  then have "s' = bmap2 (bmap2 (bmap2 (bmap2 (\<lambda>x y. x * y - 10000 * (1 - y))))) s0 m"
    unfolding s1_eq bmap2_4_fuse[OF bc] .
  then have "broadcast4 (\<lambda>x y. x * y - 10000 * (1 - y)) s0 m = Inr s'"
    using bc by (simp add: broadcast4_def)
  then show ?thesis
    unfolding s0 broadcast4_map4_left sc_def .
qed

lemma mask_scores_nth:
  assumes "mask_scores c s m = Inr s'" and "in_range4 s' b h i j"
  shows "s' ! b ! h ! i ! j =
           (case c of None \<Rightarrow> bat4 s b h i j | Some k \<Rightarrow> bat4 s b h i j * real_of_int k)
             * bat4 m b h i j - 10000 * (1 - bat4 m b h i j)"
  using broadcast4_nth[OF mask_scores_fused[OF assms(1)] assms(2)] .

section \<open>The raw attention scores\<close>

lemma matmul_transpose_b_nth:
  assumes ok: "matmul_transpose_b query key = Inr s" and rng: "in_range4 s b h i j"
  shows "s ! b ! h ! i ! j = dot (query ! b ! h ! i) (key ! b ! h ! j)"
proof -
  from ok have s: "s = map2 (map2 (\<lambda>qm km. map (\<lambda>qr. map (\<lambda>kr. dot qr kr) km) qm)) query key"
    and l0: "length query = length key"
    and l1: "list_all2 (\<lambda>x y. length x = length y) query key"
    by (auto simp: matmul_transpose_b_def list_all2_conv_all_nth split: if_splits)
  from rng have b: "b < length s" and h: "h < length (s ! b)"
    and i: "i < length (s ! b ! h)" and j: "j < length (s ! b ! h ! i)"
    by (auto simp: in_range4_def)
  have b': "b < length query" "b < length key" using b l0 by (auto simp: s)
  have sb: "s ! b = map2 (\<lambda>qm km. map (\<lambda>qr. map (\<lambda>kr. dot qr kr) km) qm) (query ! b) (key ! b)"
    using b' by (simp add: s)
  have l1': "length (query ! b) = length (key ! b)"
    using l1 b' by (simp add: list_all2_conv_all_nth)
  have h': "h < length (query ! b)" "h < length (key ! b)" using h l1' by (auto simp: sb)
  have sbh: "s ! b ! h = map (\<lambda>qr. map (\<lambda>kr. dot qr kr) (key ! b ! h)) (query ! b ! h)"
    using h' by (simp add: sb)
  have i': "i < length (query ! b ! h)" using i by (simp add: sbh)
  have sbhi: "s ! b ! h ! i = map (\<lambda>kr. dot (query ! b ! h ! i) kr) (key ! b ! h)"
    using i' by (simp add: sbh)
  have j': "j < length (key ! b ! h)" using j by (simp add: sbhi)
  show ?thesis using j' by (simp add: sbhi)
qed

lemma project_qkv_norm_factor:
  "project_qkv (self\<lparr>norm_factor := nf, coeff := c\<rparr>) hidden_states encoder_states
     past_key_value query_length
   = project_qkv self hidden_states encoder_states past_key_value query_length"
  by (cases past_key_value; cases encoder_states)
     (simp_all add: project_qkv_def Let_def cong: if_cong)

lemma scores_and_bias_raw:
  assumes "attention_scores_and_bias self hidden_states encoder_states attention_mask
             past_key_value use_cache position_bias query_length = Inr (key, val, pb, s)"
  shows "\<exists>s0. raw_attention_scores self hidden_states encoder_states past_key_value
                query_length = Inr s0
              \<and> broadcast4 (+) s0 pb = Inr s"
  using assms
  by (auto simp: attention_scores_and_bias_def raw_attention_scores_def Let_def bind_r_eq_Inr)

lemma forward_scores_and_bias:
  assumes "MultiheadAttention_forward self hidden_states encoder_states attention_mask
             past_key_value use_cache position_bias query_length = Inr r"
  shows "\<exists>key val s w.
           attention_scores_and_bias self hidden_states encoder_states attention_mask
             past_key_value use_cache position_bias query_length
             = Inr (key, val, position_bias_out r, s)
         \<and> attention_softmax self s attention_mask = Inr w"
  using assms
  by (auto simp: MultiheadAttention_forward_def Let_def bind_r_eq_Inr)

text \<open>
  Claim C1, as the code has it.  The scores computed at line 214, before any bias is
  added, are the plain dot products of the query rows with the key rows.  The constructor
  stores \<open>1 / sqrt head_size\<close>, divided by \<open>layer_idx + 1\<close> under
  \<^verbatim>\<open>apply_query_key_layer_scaling\<close>, in \<open>norm_factor\<close>, but \<^verbatim>\<open>forward\<close> does not apply
  it: the scores are the same for every value of \<open>norm_factor\<close> and \<open>coeff\<close>.  These
  scores are the ones to which \<^verbatim>\<open>forward\<close> adds the position bias.
\<close>

theorem raw_scores_are_unscaled_dot_products:
  "raw_attention_scores (self\<lparr>norm_factor := nf, coeff := c\<rparr>) hidden_states encoder_states
     past_key_value query_length
   = raw_attention_scores self hidden_states encoder_states past_key_value query_length
   \<and> (\<forall>s. raw_attention_scores self hidden_states encoder_states past_key_value query_length
            = Inr s
        \<longrightarrow> (\<exists>query key val real_seq_length key_length.
               project_qkv self hidden_states encoder_states past_key_value query_length
                 = Inr (query, key, val, real_seq_length, key_length)
             \<and> (\<forall>b h i j. in_range4 s b h i j
                  \<longrightarrow> s ! b ! h ! i ! j = dot (query ! b ! h ! i) (key ! b ! h ! j))))
   \<and> (\<forall>r. MultiheadAttention_forward self hidden_states encoder_states attention_mask
            past_key_value use_cache position_bias query_length = Inr r
        \<longrightarrow> (\<exists>s0 key val s.
               raw_attention_scores self hidden_states encoder_states past_key_value
                 query_length = Inr s0
             \<and> broadcast4 (+) s0 (position_bias_out r) = Inr s
             \<and> attention_scores_and_bias self hidden_states encoder_states attention_mask
                 past_key_value use_cache position_bias query_length
                 = Inr (key, val, position_bias_out r, s)))"
proof (intro conjI allI impI)
  show "raw_attention_scores (self\<lparr>norm_factor := nf, coeff := c\<rparr>) hidden_states
          encoder_states past_key_value query_length
        = raw_attention_scores self hidden_states encoder_states past_key_value query_length"
    by (simp add: raw_attention_scores_def project_qkv_norm_factor)
next
  fix s
  assume "raw_attention_scores self hidden_states encoder_states past_key_value query_length
            = Inr s"
  then obtain query key val real_seq_length key_length
    where p: "project_qkv self hidden_states encoder_states past_key_value query_length
                = Inr (query, key, val, real_seq_length, key_length)"
      and m: "matmul_transpose_b query key = Inr s"
    by (auto simp: raw_attention_scores_def bind_r_eq_Inr)
  show "\<exists>query key val real_seq_length key_length.
          project_qkv self hidden_states encoder_states past_key_value query_length
            = Inr (query, key, val, real_seq_length, key_length)
          \<and> (\<forall>b h i j. in_range4 s b h i j
                \<longrightarrow> s ! b ! h ! i ! j = dot (query ! b ! h ! i) (key ! b ! h ! j))"
    using p matmul_transpose_b_nth[OF m] by blast
next
  fix r
  assume "MultiheadAttention_forward self hidden_states encoder_states attention_mask
            past_key_value use_cache position_bias query_length = Inr r"
  from forward_scores_and_bias[OF this] obtain key val s w
    where a: "attention_scores_and_bias self hidden_states encoder_states attention_mask
             past_key_value use_cache position_bias query_length
             = Inr (key, val, position_bias_out r, s)"
    by blast
  from scores_and_bias_raw[OF a] a
  show "\<exists>s0 key val s.
          raw_attention_scores self hidden_states encoder_states past_key_value
            query_length = Inr s0
          \<and> broadcast4 (+) s0 (position_bias_out r) = Inr s
          \<and> attention_scores_and_bias self hidden_states encoder_states attention_mask
                 past_key_value use_cache position_bias query_length
                 = Inr (key, val, position_bias_out r, s)"
    by blast
qed

lemma example_attention_4_init:
  "MultiheadAttention_init 4 1 32 False 0 0 False False False 0 False False id id [] []
     (query_key_value_weight example_attention_4) (dense_weight example_attention_4) []
   = Inr example_attention_4"
  by (simp add: MultiheadAttention_init_def example_attention_4_def)

lemma example_attention_4_init_scaled:
  "MultiheadAttention_init 4 1 32 False 0 0 False False True 1 False False id id [] []
     (query_key_value_weight example_attention_4) (dense_weight example_attention_4) []
   = Inr (example_attention_4\<lparr>norm_factor := 1 / 4, coeff := Some 2\<rparr>)"
  by (simp add: MultiheadAttention_init_def example_attention_4_def)

lemma example_raw_scores:
  "raw_attention_scores example_attention_4 [[[1, 0, 0, 0]]] None None None = Inr [[[[1]]]]"
  by (simp add: example_attention_4_def eval_defs)

theorem raw_scores_are_unscaled_dot_products_witness:
  "MultiheadAttention_init 4 1 32 False 0 0 False False True 1 False False id id [] []
     (query_key_value_weight example_attention_4) (dense_weight example_attention_4) []
     = Inr (example_attention_4\<lparr>norm_factor := 1 / 4, coeff := Some 2\<rparr>)
   \<and> raw_attention_scores (example_attention_4\<lparr>norm_factor := 1 / 4, coeff := Some 2\<rparr>)
       [[[1, 0, 0, 0]]] None None None = Inr [[[[1]]]]"
  using raw_scores_are_unscaled_dot_products
    [where nf = "1 / 4" and c = "Some 2" and self = example_attention_4
       and hidden_states = "[[[1, 0, 0, 0]]]" and encoder_states = None
       and past_key_value = None and query_length = None, THEN conjunct1]
    example_raw_scores example_attention_4_init_scaled
  by simp

text \<open>
  With \<open>hidden_size = 4\<close> and one head the constructor stores \<open>norm_factor = 1/2\<close>.  For
  the query and key \<open>(1, 0, 0, 0)\<close> the raw score is their dot product 1, not \<open>1/2\<close>.
\<close>

theorem raw_scores_not_scaled:
  "MultiheadAttention_init 4 1 32 False 0 0 False False False 0 False False id id [] []
     (query_key_value_weight example_attention_4) (dense_weight example_attention_4) []
     = Inr example_attention_4
   \<and> norm_factor example_attention_4 = 1 / 2
   \<and> project_qkv example_attention_4 [[[1, 0, 0, 0]]] None None None
       = Inr ([[[[1, 0, 0, 0]]]], [[[[1, 0, 0, 0]]]], [[[[1, 0, 0, 0]]]], 1, 1)
   \<and> raw_attention_scores example_attention_4 [[[1, 0, 0, 0]]] None None None = Inr [[[[1]]]]
   \<and> raw_attention_scores example_attention_4 [[[1, 0, 0, 0]]] None None None
       \<noteq> Inr [[[[norm_factor example_attention_4 * dot [1, 0, 0, 0] [1, 0, 0, 0]]]]]"
  unfolding example_raw_scores example_attention_4_init
  by (simp add: example_attention_4_def eval_defs)

section \<open>A supplied position bias\<close>

lemma scores_with_supplied_bias:
  "attention_scores_and_bias self hidden_states encoder_states attention_mask past_key_value
     use_cache (Some pb) query_length =
   bind_r (project_qkv self hidden_states encoder_states past_key_value query_length)
     (\<lambda>(query, key, val, real_seq_length, key_length).
        bind_r (matmul_transpose_b query key) (\<lambda>attention_scores.
        bind_r (broadcast4 (+) attention_scores pb) (\<lambda>attention_scores.
          Inr (key, val, pb, attention_scores))))"
  by (simp add: attention_scores_and_bias_def resolve_position_bias_def Let_def)

text \<open>
  Claim C2, as the code has it.  A position bias that is supplied is neither sliced nor
  changed, whether a cache is in play or not: it is added to the raw scores as it is and
  returned as it is.  The slice to the trailing rows sits in the branch that computes the
  bias when none is supplied.
\<close>

theorem supplied_position_bias_reused_as_is:
  "resolve_position_bias self real_seq_length key_length tgt_len cache attention_mask (Some pb)
     = Inr pb
   \<and> (\<forall>r. MultiheadAttention_forward self hidden_states encoder_states attention_mask
            past_key_value use_cache (Some pb) query_length = Inr r
        \<longrightarrow> position_bias_out r = pb
          \<and> (\<exists>s0 key val s.
               raw_attention_scores self hidden_states encoder_states past_key_value
                 query_length = Inr s0
             \<and> broadcast4 (+) s0 pb = Inr s
             \<and> attention_scores_and_bias self hidden_states encoder_states attention_mask
                 past_key_value use_cache (Some pb) query_length = Inr (key, val, pb, s)))"
proof (intro conjI allI impI)
  show "resolve_position_bias self real_seq_length key_length tgt_len cache attention_mask
          (Some pb) = Inr pb"
    by (simp add: resolve_position_bias_def)
next
  fix r
  assume fwd: "MultiheadAttention_forward self hidden_states encoder_states attention_mask
            past_key_value use_cache (Some pb) query_length = Inr r"
  from forward_scores_and_bias[OF fwd] obtain key val s w
    where a: "attention_scores_and_bias self hidden_states encoder_states attention_mask
             past_key_value use_cache (Some pb) query_length
             = Inr (key, val, position_bias_out r, s)"
    by blast
  then show pb: "position_bias_out r = pb"
    by (auto simp: scores_with_supplied_bias bind_r_eq_Inr)
  from scores_and_bias_raw[OF a] a
  show "\<exists>s0 key val s.
          raw_attention_scores self hidden_states encoder_states past_key_value
            query_length = Inr s0
          \<and> broadcast4 (+) s0 pb = Inr s
          \<and> attention_scores_and_bias self hidden_states encoder_states attention_mask
                 past_key_value use_cache (Some pb) query_length = Inr (key, val, pb, s)"
    unfolding pb by blast
qed

lemma example_supplied_bias:
  "MultiheadAttention_forward example_self_attention [[[0]]] None (Some [[[[1, 1]]]])
     (Some [[[[[0]]]], [[[[0]]]]]) False (Some [[[[5, 7]]]]) None
   = Inr \<lparr>attention_output = [[[0]]], present = None, position_bias_out = [[[[5, 7]]]]\<rparr>"
  by (simp add: example_self_attention_def eval_defs)

theorem supplied_position_bias_reused_as_is_witness:
  "resolve_position_bias example_self_attention 2 2 1 True (Some [[[[1, 1]]]])
     (Some [[[[5, 7]]]]) = Inr [[[[5, 7]]]]
   \<and> (\<exists>r. MultiheadAttention_forward example_self_attention [[[0]]] None
            (Some [[[[1, 1]]]]) (Some [[[[[0]]]], [[[[0]]]]]) False (Some [[[[5, 7]]]]) None
            = Inr r
          \<and> position_bias_out r = [[[[5, 7]]]])"
  using supplied_position_bias_reused_as_is [THEN conjunct1]
    supplied_position_bias_reused_as_is [THEN conjunct2, rule_format, THEN conjunct1,
      OF example_supplied_bias]
    example_supplied_bias
  by blast

text \<open>
  A supplied bias of two rows, a cache in play and one query position: the bias is taken
  whole, its trailing row is not cut out, and the call fails on the shapes; with the
  trailing row supplied the call returns.
\<close>

theorem supplied_position_bias_not_sliced:
  "resolve_position_bias example_self_attention 2 2 1 True (Some [[[[1, 1]]]])
     (Some [[[[0, 0], [5, 7]]]]) = Inr [[[[0, 0], [5, 7]]]]
   \<and> slice_last_rows 1 [[[[0, 0], [5, 7]]]] = [[[[5, 7]]]]
   \<and> MultiheadAttention_forward example_self_attention [[[0]]] None (Some [[[[1, 1]]]])
       (Some [[[[[0]]]], [[[[0]]]]]) False (Some [[[[0, 0], [5, 7]]]]) None = Inl ShapeError
   \<and> MultiheadAttention_forward example_self_attention [[[0]]] None (Some [[[[1, 1]]]])
       (Some [[[[[0]]]], [[[[0]]]]]) False (Some (slice_last_rows 1 [[[[0, 0], [5, 7]]]])) None
       = Inr \<lparr>attention_output = [[[0]]], present = None, position_bias_out = [[[[5, 7]]]]\<rparr>"
  by (simp add: example_self_attention_def eval_defs)

section \<open>The two mask penalties\<close>

lemma resolve_fold_nth:
  assumes "resolve_position_bias self rsl kl tgt cache (Some m) None = Inr pb"
  shows "\<exists>b0. (if has_relative_attention_bias self then compute_bias self rsl kl = Inr b0
               else b0 = [replicate (num_heads self) (replicate rsl (replicate kl 0))])
          \<and> (\<forall>b h i j. in_range4 pb b h i j \<longrightarrow>
                pb ! b ! h ! i ! j
                  = bat4 (if cache then slice_last_rows tgt b0 else b0) b h i j
                    + (1 - bat4 m b h i j) * (- 1000))"
proof -
  from assms obtain b0
    where b0: "(if \<not> has_relative_attention_bias self
                then Inr [replicate (num_heads self) (replicate rsl (replicate kl 0))]
                else compute_bias self rsl kl) = Inr b0"
      and f: "broadcast4 (\<lambda>x y. x + (1 - y) * (- 1000))
                (if cache then slice_last_rows tgt b0 else b0) m = Inr pb"
    by (auto simp: resolve_position_bias_def Let_def bind_r_eq_Inr broadcast4_map4_right)
  have "if has_relative_attention_bias self then compute_bias self rsl kl = Inr b0
        else b0 = [replicate (num_heads self) (replicate rsl (replicate kl 0))]"
    using b0 by (auto split: if_splits)
  then show ?thesis
    using broadcast4_nth[OF f] by blast
qed

lemma forward_stages:
  "MultiheadAttention_forward self hidden_states encoder_states attention_mask past_key_value
     use_cache position_bias query_length
   = bind_r (attention_scores_and_bias self hidden_states encoder_states attention_mask
               past_key_value use_cache position_bias query_length)
       (\<lambda>(key, val, position_bias, attention_scores).
          bind_r (attention_softmax self attention_scores attention_mask)
            (attention_output_of self (length hidden_states) (size1 hidden_states) use_cache
               key val position_bias))"
  by (simp add: MultiheadAttention_forward_def attention_output_of_def[abs_def] Let_def)

lemma mask_scores_masked_position:
  assumes "mask_scores c s m = Inr s'" and "in_range4 s' b h i j" and "bat4 m b h i j = 0"
  shows "s' ! b ! h ! i ! j = - 10000"
  using mask_scores_nth[OF assms(1,2)] assms(3) by simp

lemma mask_scores_unscaled:
  assumes "mask_scores None s m = Inr s'" and "in_range4 s' b h i j"
  shows "s' ! b ! h ! i ! j = bat4 s b h i j * bat4 m b h i j - 10000 * (1 - bat4 m b h i j)"
  using mask_scores_nth[OF assms(1,2)] by simp

text \<open>
  Claim C3, as the code has it.  On the path that is not fused, every call with a mask
  that returns, with or without a supplied bias, computes its result from the softmax of
  the masked scores: the raw scores plus the position bias, handed to lines 250 to 253,
  where a position with mask 0 gets the score \<open>-10000\<close>; without layer scaling these are
  the scores times the mask minus \<open>10000 * (1 - mask)\<close>.  A supplied bias is the bias
  added and returned.  Without a supplied bias the same call has folded the same mask
  into the bias it computed (zero or from the table, sliced when a cache is in play),
  adding \<open>(1 - mask) * -1000\<close>, and adds and returns that bias: both constants are applied
  to one mask in one call.
\<close>

theorem mask_penalised_in_bias_and_in_scores:
  assumes nf: "\<not> scale_mask_softmax_fusion self"
    and fwd: "MultiheadAttention_forward self hidden_states encoder_states (Some m)
                past_key_value use_cache position_bias query_length = Inr r"
  shows "\<exists>query key val real_seq_length key_length s0 s s'.
      project_qkv self hidden_states encoder_states past_key_value query_length
        = Inr (query, key, val, real_seq_length, key_length)
    \<and> matmul_transpose_b query key = Inr s0
    \<and> (case position_bias of
          Some supplied \<Rightarrow> position_bias_out r = supplied
        | None \<Rightarrow>
            (\<exists>b0. (if has_relative_attention_bias self
                    then compute_bias self real_seq_length key_length = Inr b0
                    else b0 = [replicate (num_heads self)
                                 (replicate real_seq_length (replicate key_length 0))])
                \<and> (\<forall>b h i j. in_range4 (position_bias_out r) b h i j \<longrightarrow>
                      position_bias_out r ! b ! h ! i ! j
                        = bat4 (if use_cache \<or> past_key_value \<noteq> None
                                then slice_last_rows (size1 hidden_states) b0 else b0) b h i j
                          + (1 - bat4 m b h i j) * (- 1000))))
    \<and> broadcast4 (+) s0 (position_bias_out r) = Inr s
    \<and> mask_scores (coeff self) s m = Inr s'
    \<and> (\<forall>b h i j. in_range4 s' b h i j \<longrightarrow> bat4 m b h i j = 0
          \<longrightarrow> s' ! b ! h ! i ! j = - 10000)
    \<and> (coeff self = None \<longrightarrow>
          (\<forall>b h i j. in_range4 s' b h i j \<longrightarrow>
             s' ! b ! h ! i ! j
               = bat4 s b h i j * bat4 m b h i j - 10000 * (1 - bat4 m b h i j)))
    \<and> attention_output_of self (length hidden_states) (size1 hidden_states) use_cache
        key val (position_bias_out r) (map (map (map softmax)) s') = Inr r"
proof -
  from fwd obtain key val pb s w
    where a: "attention_scores_and_bias self hidden_states encoder_states (Some m)
                past_key_value use_cache position_bias query_length = Inr (key, val, pb, s)"
      and w: "attention_softmax self s (Some m) = Inr w"
      and out: "attention_output_of self (length hidden_states) (size1 hidden_states)
                  use_cache key val pb w = Inr r"
    by (auto simp: forward_stages bind_r_eq_Inr)
  have pb: "pb = position_bias_out r"
    using out by (auto simp: attention_output_of_def Let_def bind_r_eq_Inr)
  from a obtain query real_seq_length key_length s0
    where p: "project_qkv self hidden_states encoder_states past_key_value query_length
                = Inr (query, key, val, real_seq_length, key_length)"
      and s0: "matmul_transpose_b query key = Inr s0"
      and res: "resolve_position_bias self real_seq_length key_length (size1 hidden_states)
                  (use_cache \<or> past_key_value \<noteq> None) (Some m) position_bias = Inr pb"
      and s: "broadcast4 (+) s0 pb = Inr s"
    by (auto simp: attention_scores_and_bias_def Let_def bind_r_eq_Inr)
  from w nf obtain s' where ms: "mask_scores (coeff self) s m = Inr s'"
    and w': "w = map (map (map softmax)) s'"
    by (auto simp: attention_softmax_def bind_r_eq_Inr)
  have bias: "case position_bias of
          Some supplied \<Rightarrow> position_bias_out r = supplied
        | None \<Rightarrow>
            (\<exists>b0. (if has_relative_attention_bias self
                    then compute_bias self real_seq_length key_length = Inr b0
                    else b0 = [replicate (num_heads self)
                                 (replicate real_seq_length (replicate key_length 0))])
                \<and> (\<forall>b h i j. in_range4 (position_bias_out r) b h i j \<longrightarrow>
                      position_bias_out r ! b ! h ! i ! j
                        = bat4 (if use_cache \<or> past_key_value \<noteq> None
                                then slice_last_rows (size1 hidden_states) b0 else b0) b h i j
                          + (1 - bat4 m b h i j) * (- 1000)))"
  proof (cases position_bias)
    case None
    then show ?thesis
      using resolve_fold_nth[OF res[unfolded None pb]] by simp
  next
    case (Some supplied)
    then show ?thesis
      using res pb by (simp add: resolve_position_bias_def)
  qed
  have masked: "\<forall>b h i j. in_range4 s' b h i j \<longrightarrow> bat4 m b h i j = 0
          \<longrightarrow> s' ! b ! h ! i ! j = - 10000"
    using mask_scores_masked_position[OF ms] by blast
  have unscaled: "coeff self = None \<longrightarrow>
          (\<forall>b h i j. in_range4 s' b h i j \<longrightarrow>
             s' ! b ! h ! i ! j
               = bat4 s b h i j * bat4 m b h i j - 10000 * (1 - bat4 m b h i j))"
    using mask_scores_unscaled ms by metis
  show ?thesis
    by (intro exI conjI)
       (fact p s0 bias s[unfolded pb] ms masked unscaled out[unfolded pb w'])+
qed

lemma example_masked_forward:
  "MultiheadAttention_forward example_self_attention [[[0], [0]]] None
     (Some [[[[1, 0], [1, 1]]]]) None False None None
   = Inr \<lparr>attention_output = [[[0], [0]]], present = None,
           position_bias_out = [[[[0, - 1000], [0, 0]]]]\<rparr>"
  by (simp add: example_self_attention_def eval_defs)

lemma example_masked_scores:
  "attention_scores_and_bias example_self_attention [[[0], [0]]] None
     (Some [[[[1, 0], [1, 1]]]]) None False None None
   = Inr ([[[[0], [0]]]], [[[[0], [0]]]], [[[[0, - 1000], [0, 0]]]], [[[[0, - 1000], [0, 0]]]])"
  by (simp add: example_self_attention_def eval_defs)

lemma example_masked_forward_supplied:
  "MultiheadAttention_forward example_self_attention [[[0], [0]]] None
     (Some [[[[1, 0], [1, 1]]]]) None False (Some [[[[0, 0], [0, 0]]]]) None
   = Inr \<lparr>attention_output = [[[0], [0]]], present = None,
           position_bias_out = [[[[0, 0], [0, 0]]]]\<rparr>"
  by (simp add: example_self_attention_def eval_defs)

theorem mask_penalised_in_bias_and_in_scores_witness:
  "(\<exists>key val s0 s s'.
      broadcast4 (+) s0 [[[[0, - 1000], [0, 0]]]] = Inr s
    \<and> mask_scores (coeff example_self_attention) s [[[[1, 0], [1, 1]]]] = Inr s'
    \<and> attention_output_of example_self_attention 1 2 False key val
        [[[[0, - 1000], [0, 0]]]] (map (map (map softmax)) s')
        = Inr \<lparr>attention_output = [[[0], [0]]], present = None,
                position_bias_out = [[[[0, - 1000], [0, 0]]]]\<rparr>)
   \<and> (\<exists>key val s0 s s'.
      broadcast4 (+) s0 [[[[0, 0], [0, 0]]]] = Inr s
    \<and> mask_scores (coeff example_self_attention) s [[[[1, 0], [1, 1]]]] = Inr s'
    \<and> attention_output_of example_self_attention 1 2 False key val
        [[[[0, 0], [0, 0]]]] (map (map (map softmax)) s')
        = Inr \<lparr>attention_output = [[[0], [0]]], present = None,
                position_bias_out = [[[[0, 0], [0, 0]]]]\<rparr>)"
proof -
  have nf: "\<not> scale_mask_softmax_fusion example_self_attention"
    by (simp add: example_self_attention_def)
  have sz: "length [[[0 :: real], [0]]] = 1" "size1 [[[0 :: real], [0]]] = 2"
    by (simp_all add: size1_def)
  from mask_penalised_in_bias_and_in_scores [OF nf example_masked_forward]
  have 1: "\<exists>key val s0 s s'.
      broadcast4 (+) s0 [[[[0, - 1000], [0, 0]]]] = Inr s
    \<and> mask_scores (coeff example_self_attention) s [[[[1, 0], [1, 1]]]] = Inr s'
    \<and> attention_output_of example_self_attention 1 2 False key val
        [[[[0, - 1000], [0, 0]]]] (map (map (map softmax)) s')
        = Inr \<lparr>attention_output = [[[0], [0]]], present = None,
                position_bias_out = [[[[0, - 1000], [0, 0]]]]\<rparr>"
    unfolding sz by (elim exE conjE) (simp, blast)
  from mask_penalised_in_bias_and_in_scores [OF nf example_masked_forward_supplied]
  have 2: "\<exists>key val s0 s s'.
      broadcast4 (+) s0 [[[[0, 0], [0, 0]]]] = Inr s
    \<and> mask_scores (coeff example_self_attention) s [[[[1, 0], [1, 1]]]] = Inr s'
    \<and> attention_output_of example_self_attention 1 2 False key val
        [[[[0, 0], [0, 0]]]] (map (map (map softmax)) s')
        = Inr \<lparr>attention_output = [[[0], [0]]], present = None,
                position_bias_out = [[[[0, 0], [0, 0]]]]\<rparr>"
    unfolding sz by (elim exE conjE) (simp, blast)
  show ?thesis using 1 2 by blast
qed

text \<open>
  One call with a mask and without a supplied bias: at the masked position the returned
  bias carries \<open>-1000\<close> and the score handed to the softmax is \<open>-10000\<close>.
\<close>

theorem mask_penalised_by_both_constants:
  "MultiheadAttention_forward example_self_attention [[[0], [0]]] None
     (Some [[[[1, 0], [1, 1]]]]) None False None None
   = Inr \<lparr>attention_output = [[[0], [0]]], present = None,
           position_bias_out = [[[[0, - 1000], [0, 0]]]]\<rparr>
   \<and> attention_scores_and_bias example_self_attention [[[0], [0]]] None
     (Some [[[[1, 0], [1, 1]]]]) None False None None
   = Inr ([[[[0], [0]]]], [[[[0], [0]]]], [[[[0, - 1000], [0, 0]]]], [[[[0, - 1000], [0, 0]]]])
   \<and> \<not> scale_mask_softmax_fusion example_self_attention
   \<and> mask_scores (coeff example_self_attention) [[[[0, - 1000], [0, 0]]]] [[[[1, 0], [1, 1]]]]
       = Inr [[[[0, - 10000], [0, 0]]]]"
  unfolding example_masked_forward example_masked_scores
  by (simp add: example_self_attention_def eval_defs)

section \<open>A mask of ones\<close>

lemma bmap2_neutral:
  assumes "expands_to ys xs" and "\<And>x y. x \<in> set xs \<Longrightarrow> y \<in> set ys \<Longrightarrow> f x y = x"
  shows "bmap2 f xs ys = xs"
proof -
  have b: "length ys = 1 \<Longrightarrow> ys ! 0 \<in> set ys" by simp
  have "map2 f xs ys = xs" if "length xs = length ys"
    using that assms(2) by (auto intro!: nth_equalityI)
  then show ?thesis
    using assms b by (auto simp: bmap2_def expands_to_def intro!: nth_equalityI)
qed

lemma expands_to_bcompat: "expands_to x y \<Longrightarrow> bcompat y x"
  by (auto simp: expands_to_def bcompat_def)

lemma expands_to4_broadcastable4:
  assumes e: "expands_to4 m s"
  shows "broadcastable4 s m"
proof -
  have e0: "expands_to m s"
    and e1: "\<And>x y. x \<in> set m \<Longrightarrow> y \<in> set s \<Longrightarrow> expands_to x y"
    and e2: "\<And>x y x' y'. x \<in> set m \<Longrightarrow> y \<in> set s \<Longrightarrow> x' \<in> set x \<Longrightarrow> y' \<in> set y
              \<Longrightarrow> expands_to x' y'"
    and e3: "\<And>x y x' y' r t. x \<in> set m \<Longrightarrow> y \<in> set s \<Longrightarrow> x' \<in> set x \<Longrightarrow> y' \<in> set y
              \<Longrightarrow> r \<in> set x' \<Longrightarrow> t \<in> set y' \<Longrightarrow> expands_to r t"
    using e by (auto simp: expands_to4_def list_all_iff)
  show ?thesis
    unfolding broadcastable4_def list_all_iff
    by (intro conjI ballI expands_to_bcompat e0 e1 e2 e3)
qed

lemma broadcast4_neutral:
  assumes e: "expands_to4 m s" and o: "all_ones m" and f: "\<And>x. f x 1 = x"
  shows "broadcast4 f s m = Inr s"
proof -
  have e0: "expands_to m s"
    and e1: "\<And>x y. x \<in> set m \<Longrightarrow> y \<in> set s \<Longrightarrow> expands_to x y"
    and e2: "\<And>x y x' y'. x \<in> set m \<Longrightarrow> y \<in> set s \<Longrightarrow> x' \<in> set x \<Longrightarrow> y' \<in> set y
              \<Longrightarrow> expands_to x' y'"
    and e3: "\<And>x y x' y' r t. x \<in> set m \<Longrightarrow> y \<in> set s \<Longrightarrow> x' \<in> set x \<Longrightarrow> y' \<in> set y
              \<Longrightarrow> r \<in> set x' \<Longrightarrow> t \<in> set y' \<Longrightarrow> expands_to r t"
    using e by (auto simp: expands_to4_def list_all_iff)
  have ones: "\<And>x x' r v. x \<in> set m \<Longrightarrow> x' \<in> set x \<Longrightarrow> r \<in> set x' \<Longrightarrow> v \<in> set r \<Longrightarrow> v = 1"
    using o by (auto simp: all_ones_def list_all_iff)
  have "bmap2 (bmap2 (bmap2 (bmap2 f))) s m = s"
  proof (rule bmap2_neutral[OF e0])
    fix y x assume y: "y \<in> set s" and x: "x \<in> set m"
    show "bmap2 (bmap2 (bmap2 f)) y x = y"
    proof (rule bmap2_neutral[OF e1[OF x y]])
      fix y' x' assume y': "y' \<in> set y" and x': "x' \<in> set x"
      show "bmap2 (bmap2 f) y' x' = y'"
      proof (rule bmap2_neutral[OF e2[OF x y x' y']])
        fix t r assume t: "t \<in> set y'" and r: "r \<in> set x'"
        show "bmap2 f t r = t"
        proof (rule bmap2_neutral[OF e3[OF x y x' y' r t]])
          fix u v assume "u \<in> set t" and "v \<in> set r"
          then have "v = 1" using ones[OF x x' r] by blast
          then show "f u v = u" using f by simp
        qed
      qed
    qed
  qed
  then show ?thesis
    using expands_to4_broadcastable4[OF e] by (simp add: broadcast4_def)
qed

lemma attention_softmax_all_ones:
  assumes "scale_mask_softmax_fusion self \<or> coeff self = None"
    and "expands_to4 m s" and "all_ones m"
  shows "attention_softmax self s (Some m) = attention_softmax self s None"
proof (cases "scale_mask_softmax_fusion self")
  case True
  have "broadcast4 (\<lambda>s m. if m = 0 then - 10000 else s) s m = Inr s"
    by (rule broadcast4_neutral[OF assms(2,3)]) simp
  then show ?thesis
    using True by (simp add: attention_softmax_def fused_scale_mask_softmax_def)
next
  case False
  then have c: "coeff self = None" using assms(1) by simp
  have 1: "broadcast4 (*) s m = Inr s"
    by (rule broadcast4_neutral[OF assms(2,3)]) simp
  have 2: "broadcast4 (\<lambda>x y. x - 10000 * (1 - y)) s m = Inr s"
    by (rule broadcast4_neutral[OF assms(2,3)]) simp
  have "mask_scores None s m = Inr s"
    unfolding mask_scores_def Let_def
    by (simp only: option.case 1 bind_r_Inr broadcast4_map4_right 2)
  then show ?thesis
    using False by (simp add: attention_softmax_def c)
qed

text \<open>
  Where the mask of ones is neutral: with a supplied position bias and either the fused
  softmax or no layer scaling (\<open>coeff\<close> is \<^verbatim>\<open>None\<close>), a mask of ones whose shape
  broadcasts to the shape of the scores gives the result of the call without a mask
  (for equal dropout draws).
\<close>

lemma all_ones_mask_is_no_mask:
  assumes "attention_dropout_prob self = 0" and "output_dropout_prob self = 0"
    and "scale_mask_softmax_fusion self \<or> coeff self = None"
    and "all_ones m"
    and "\<forall>key val pb' s.
           attention_scores_and_bias self hidden_states encoder_states None past_key_value
             use_cache (Some pb) query_length = Inr (key, val, pb', s)
           \<longrightarrow> expands_to4 m s"
  shows "MultiheadAttention_forward self hidden_states encoder_states (Some m) past_key_value
           use_cache (Some pb) query_length
       = MultiheadAttention_forward self hidden_states encoder_states None past_key_value
           use_cache (Some pb) query_length"
proof -
  have eq: "attention_scores_and_bias self hidden_states encoder_states (Some m)
              past_key_value use_cache (Some pb) query_length
          = attention_scores_and_bias self hidden_states encoder_states None
              past_key_value use_cache (Some pb) query_length"
    by (simp add: scores_with_supplied_bias)
  show ?thesis
  proof (cases "attention_scores_and_bias self hidden_states encoder_states None
              past_key_value use_cache (Some pb) query_length")
    case (Inl e)
    then show ?thesis by (simp add: MultiheadAttention_forward_def eq)
  next
    case (Inr x)
    obtain key val pb' s where x: "x = (key, val, pb', s)" by (cases x) auto
    have "expands_to4 m s" using assms(5) Inr x by blast
    then have "attention_softmax self s (Some m) = attention_softmax self s None"
      using attention_softmax_all_ones assms(3,4) by blast
    then show ?thesis by (simp add: MultiheadAttention_forward_def eq Inr x)
  qed
qed

lemma example_scaled_init:
  "MultiheadAttention_init 1 1 32 False 0 0 False False True 1 False True id id [] []
     [[1], [1], [1]] [[1]] []
   = Inr (example_self_attention\<lparr>norm_factor := 1 / 2, coeff := Some 2\<rparr>)"
  by (simp add: MultiheadAttention_init_def example_self_attention_def)

lemma example_scaled_without_mask:
  "MultiheadAttention_forward (example_self_attention\<lparr>norm_factor := 1 / 2, coeff := Some 2\<rparr>)
     [[[0], [1]]] None None None False (Some [[[[0, 0], [0, 0]]]]) None
   = Inr \<lparr>attention_output = [[[1 / 2], [exp 1 / (1 + exp 1)]]], present = None,
           position_bias_out = [[[[0, 0], [0, 0]]]]\<rparr>"
  by (simp add: example_self_attention_def eval_defs)

lemma example_scaled_with_ones:
  "MultiheadAttention_forward (example_self_attention\<lparr>norm_factor := 1 / 2, coeff := Some 2\<rparr>)
     [[[0], [1]]] None (Some [[[[1, 1], [1, 1]]]]) None False (Some [[[[0, 0], [0, 0]]]]) None
   = Inr \<lparr>attention_output = [[[1 / 2], [exp 2 / (1 + exp 2)]]], present = None,
           position_bias_out = [[[[0, 0], [0, 0]]]]\<rparr>"
  by (simp add: example_self_attention_def eval_defs)

lemma exp_ratio_differs: "exp 2 / (1 + exp 2) \<noteq> exp 1 / (1 + exp (1 :: real))"
proof
  assume eq: "exp 2 / (1 + exp 2) = exp 1 / (1 + exp (1 :: real))"
  have p1: "0 < 1 + exp (1 :: real)" and p2: "0 < 1 + exp (2 :: real)"
    by (simp_all add: add_pos_pos)
  from eq have "exp 2 * (1 + exp 1) = exp 1 * (1 + exp (2 :: real))"
    using p1 p2 by (simp add: field_simps)
  then have "exp (2 :: real) = exp 1" by (simp add: algebra_simps)
  then show False by simp
qed

lemma example_unguarded_with_ones:
  "MultiheadAttention_forward example_self_attention [[[0], [1]]] None
     (Some [[[[1, 1], [1, 1]]]]) None False None None
   = Inr \<lparr>attention_output = [[[1 / 2], [exp 1 / (1 + exp 1)]]], present = None,
           position_bias_out = [[[[0, 0], [0, 0]]]]\<rparr>"
  by (simp add: example_self_attention_def eval_defs)

lemma example_unguarded_without_mask:
  "MultiheadAttention_forward example_self_attention [[[0], [1]]] None None None False
     None None = Inl AttributeError"
  by (simp add: example_self_attention_def eval_defs)

text \<open>
  Claim C8 does not hold of the code, at two places.  With layer scaling
  (\<open>apply_query_key_layer_scaling\<close>, here \<open>coeff = 2\<close>) the branch of lines 250 to 253
  multiplies the scores by \<open>coeff\<close>, which neither the branch without a mask nor the
  fused branch does: a mask of ones changes the output.  Without a supplied position
  bias the call with a mask of ones returns, and the call without a mask raises
  \<^verbatim>\<open>AttributeError\<close> at line 236.
\<close>

theorem all_ones_mask_differs_from_no_mask:
  "MultiheadAttention_init 1 1 32 False 0 0 False False True 1 False True id id [] []
     [[1], [1], [1]] [[1]] []
     = Inr (example_self_attention\<lparr>norm_factor := 1 / 2, coeff := Some 2\<rparr>)
   \<and> MultiheadAttention_forward (example_self_attention\<lparr>norm_factor := 1 / 2, coeff := Some 2\<rparr>)
       [[[0], [1]]] None (Some [[[[1, 1], [1, 1]]]]) None False (Some [[[[0, 0], [0, 0]]]]) None
     = Inr \<lparr>attention_output = [[[1 / 2], [exp 2 / (1 + exp 2)]]], present = None,
             position_bias_out = [[[[0, 0], [0, 0]]]]\<rparr>
   \<and> MultiheadAttention_forward (example_self_attention\<lparr>norm_factor := 1 / 2, coeff := Some 2\<rparr>)
       [[[0], [1]]] None None None False (Some [[[[0, 0], [0, 0]]]]) None
     = Inr \<lparr>attention_output = [[[1 / 2], [exp 1 / (1 + exp 1)]]], present = None,
             position_bias_out = [[[[0, 0], [0, 0]]]]\<rparr>
   \<and> exp 2 / (1 + exp 2) \<noteq> exp 1 / (1 + exp (1 :: real))
   \<and> MultiheadAttention_forward example_self_attention [[[0], [1]]] None
       (Some [[[[1, 1], [1, 1]]]]) None False None None
     = Inr \<lparr>attention_output = [[[1 / 2], [exp 1 / (1 + exp 1)]]], present = None,
             position_bias_out = [[[[0, 0], [0, 0]]]]\<rparr>
   \<and> MultiheadAttention_forward example_self_attention [[[0], [1]]] None None None False
       None None = Inl AttributeError"
  using example_scaled_init example_scaled_with_ones example_scaled_without_mask
    exp_ratio_differs example_unguarded_with_ones example_unguarded_without_mask
  by blast

section \<open>Cache threading in a decoder layer\<close>

lemma forward_cache_tuple:
  assumes "MultiheadAttention_forward self hidden_states encoder_states attention_mask
             past_key_value True position_bias query_length = Inr r"
  shows "\<exists>k v. present r = Some (k, v) \<and> cache_tuple r = Some [k, v]"
  using forward_present[OF assms] by (auto simp: cache_tuple_def)

lemma split_past_key_value_decoder:
  "split_past_key_value True (Some p) =
     (if length p \<noteq> 4 then Inl AssertionError else Inr (Some (take 2 p), Some (drop 2 p)))"
  by (simp add: split_past_key_value_def)

lemma take_drop_4:
  assumes "length p = 4"
  shows "take 2 p = [p ! 0, p ! 1]" and "drop 2 p = [p ! 2, p ! 3]"
proof -
  obtain a b c d where "p = [a, b, c, d]"
    using assms by (auto simp: length_Suc_conv numeral_eq_Suc)
  then show "take 2 p = [p ! 0, p ! 1]" and "drop 2 p = [p ! 2, p ! 3]"
    by (simp_all add: numeral_eq_Suc)
qed

text \<open>
  Claim C9.  In a decoder layer a supplied \<^verbatim>\<open>past_key_value\<close> whose length is not 4 is
  rejected by the assertion; one of length 4 is split into its first two elements for the
  self-attention and its last two for the cross-attention; and with \<^verbatim>\<open>use_cache\<close> the
  layer returns the 4-tuple made of the cache pair of the self-attention followed by the
  cache pair of the cross-attention.
\<close>

theorem decoder_cache_threading:
  assumes dec: "layer_is_decoder self"
  shows "(\<forall>p. length p \<noteq> 4 \<longrightarrow>
            TransformerLayer_forward self hidden_states attention_mask encoder_states
              encoder_attention_mask (Some p) use_cache position_bias
              encoder_decoder_position_bias = Inl AssertionError)
    \<and> (\<forall>p. length p = 4 \<longrightarrow>
            split_past_key_value (layer_is_decoder self) (Some p)
              = Inr (Some [p ! 0, p ! 1], Some [p ! 2, p ! 3]))
    \<and> (\<forall>r. TransformerLayer_forward self hidden_states attention_mask encoder_states
              encoder_attention_mask past_key_value True position_bias
              encoder_decoder_position_bias = Inr r
          \<longrightarrow> (\<exists>self_past cross_past ln1 self_result hs1 ln2 cross_result k v ck cv.
                 split_past_key_value (layer_is_decoder self) past_key_value
                   = Inr (self_past, cross_past)
               \<and> LayerNorm_forward (input_layernorm self) hidden_states = Inr ln1
               \<and> MultiheadAttention_forward (self_attention self) ln1 None attention_mask
                   self_past True position_bias None = Inr self_result
               \<and> present self_result = Some (k, v)
               \<and> broadcast3 (+) hidden_states (attention_output self_result) = Inr hs1
               \<and> LayerNorm_forward (post_attention_layernorm self) hs1 = Inr ln2
               \<and> MultiheadAttention_forward (cross_attention self) ln2 encoder_states
                   encoder_attention_mask cross_past True encoder_decoder_position_bias
                   (Some (size2 k)) = Inr cross_result
               \<and> present cross_result = Some (ck, cv)
               \<and> presents r = Some [k, v, ck, cv]))"
proof (intro conjI allI impI)
  fix p :: "tensor4 list"
  assume "length p \<noteq> 4"
  then show "TransformerLayer_forward self hidden_states attention_mask encoder_states
              encoder_attention_mask (Some p) use_cache position_bias
              encoder_decoder_position_bias = Inl AssertionError"
    using dec by (simp add: TransformerLayer_forward_def split_past_key_value_decoder)
next
  fix p :: "tensor4 list"
  assume "length p = 4"
  then show "split_past_key_value (layer_is_decoder self) (Some p)
              = Inr (Some [p ! 0, p ! 1], Some [p ! 2, p ! 3])"
    using dec take_drop_4[of p] by (simp add: split_past_key_value_decoder)
next
  fix r
  assume fwd: "TransformerLayer_forward self hidden_states attention_mask encoder_states
              encoder_attention_mask past_key_value True position_bias
              encoder_decoder_position_bias = Inr r"
  from fwd obtain self_past cross_past ln1 self_result hs1 ln2 x
    where sp: "split_past_key_value (layer_is_decoder self) past_key_value
                 = Inr (self_past, cross_past)"
      and l1: "LayerNorm_forward (input_layernorm self) hidden_states = Inr ln1"
      and sa: "MultiheadAttention_forward (self_attention self) ln1 None attention_mask
                   self_past True position_bias None = Inr self_result"
      and h1: "broadcast3 (+) hidden_states (attention_output self_result) = Inr hs1"
      and l2: "LayerNorm_forward (post_attention_layernorm self) hs1 = Inr ln2"
      and rest: "bind_r (bind_r (MultiheadAttention_forward (cross_attention self) ln2
                   encoder_states encoder_attention_mask cross_past True
                   encoder_decoder_position_bias
                   (case cache_tuple self_result of None \<Rightarrow> None
                    | Some p \<Rightarrow> Some (size2 (p ! 0))))
                 (\<lambda>cross_result.
                    bind_r (broadcast3 (+) hs1 (attention_output cross_result))
                      (\<lambda>hidden_states.
                         bind_r (LayerNorm_forward (post_cross_attention_layernorm self)
                                   hidden_states)
                           (\<lambda>layernorm_output.
                              Inr (hidden_states, layernorm_output,
                                   (case (cache_tuple self_result, cache_tuple cross_result) of
                                      (Some p, Some decoder_presents) \<Rightarrow>
                                        Some (p @ decoder_presents)
                                    | _ \<Rightarrow> None),
                                   Some (position_bias_out cross_result))))))
                (\<lambda>(hidden_states, layernorm_output, presents', encoder_decoder_position_bias).
                   bind_r (mlp self layernorm_output) (\<lambda>mlp_output.
                   bind_r (broadcast3 (+) hidden_states mlp_output) (\<lambda>layer_out.
                     Inr \<lparr> layer_output = layer_out,
                           presents = presents',
                           layer_position_bias = position_bias_out self_result,
                           layer_encoder_decoder_position_bias =
                             encoder_decoder_position_bias \<rparr>))) = Inr r"
    using dec
    by (auto simp: TransformerLayer_forward_def bind_r_eq_Inr Let_def)
  from forward_cache_tuple[OF sa] obtain k v
    where kv: "present self_result = Some (k, v)" "cache_tuple self_result = Some [k, v]"
    by blast
  from rest obtain cross_result
    where ca: "MultiheadAttention_forward (cross_attention self) ln2
                   encoder_states encoder_attention_mask cross_past True
                   encoder_decoder_position_bias (Some (size2 k)) = Inr cross_result"
      and pr: "presents r = (case cache_tuple cross_result of
                               Some decoder_presents \<Rightarrow> Some ([k, v] @ decoder_presents)
                             | None \<Rightarrow> None)"
    by (auto simp: bind_r_eq_Inr kv split: option.splits)
  from forward_cache_tuple[OF ca] obtain ck cv
    where ckv: "present cross_result = Some (ck, cv)" "cache_tuple cross_result = Some [ck, cv]"
    by blast
  have pr': "presents r = Some [k, v, ck, cv]"
    using pr ckv(2) by simp
  show "\<exists>self_past cross_past ln1 self_result hs1 ln2 cross_result k v ck cv.
                 split_past_key_value (layer_is_decoder self) past_key_value
                   = Inr (self_past, cross_past)
               \<and> LayerNorm_forward (input_layernorm self) hidden_states = Inr ln1
               \<and> MultiheadAttention_forward (self_attention self) ln1 None attention_mask
                   self_past True position_bias None = Inr self_result
               \<and> present self_result = Some (k, v)
               \<and> broadcast3 (+) hidden_states (attention_output self_result) = Inr hs1
               \<and> LayerNorm_forward (post_attention_layernorm self) hs1 = Inr ln2
               \<and> MultiheadAttention_forward (cross_attention self) ln2 encoder_states
                   encoder_attention_mask cross_past True encoder_decoder_position_bias
                   (Some (size2 k)) = Inr cross_result
               \<and> present cross_result = Some (ck, cv)
               \<and> presents r = Some [k, v, ck, cv]"
    by (intro exI conjI) (fact sp l1 sa kv(1) h1 l2 ca ckv(1) pr')+
qed

lemma example_layer_self_step:
  "MultiheadAttention_forward example_self_attention [[[0]]] None (Some [[[[1, 1]]]])
     (Some [[[[[0]]]], [[[[0]]]]]) True None None
   = Inr \<lparr>attention_output = [[[0]]],
           present = Some ([[[[0], [0]]]], [[[[0], [0]]]]),
           position_bias_out = [[[[0, 0]]]]\<rparr>"
  by (simp add: example_self_attention_def eval_defs)

lemma example_layer_cross_step:
  "MultiheadAttention_forward example_cross_attention [[[0]]] (Some [[[0]]]) (Some [[[[1]]]])
     (Some [[[[[3]]]], [[[[0]]]]]) True None (Some 2)
   = Inr \<lparr>attention_output = [[[0]]],
           present = Some ([[[[3]]]], [[[[0]]]]),
           position_bias_out = [[[[0]]]]\<rparr>"
  by (simp add: example_cross_attention_def eval_defs)

lemma example_layer_decode_step:
  "TransformerLayer_forward example_layer [[[0]]] (Some [[[[1, 1]]]]) (Some [[[0]]])
     (Some [[[[1]]]]) (Some [[[[[0]]]], [[[[0]]]], [[[[3]]]], [[[[0]]]]]) True None None
   = Inr \<lparr>layer_output = [[[0]]],
           presents = Some [[[[[0], [0]]]], [[[[0], [0]]]], [[[[3]]]], [[[[0]]]]],
           layer_position_bias = [[[[0, 0]]]],
           layer_encoder_decoder_position_bias = Some [[[[0]]]]\<rparr>"
  by (simp add: example_layer_def layer_defs example_layer_self_step
      example_layer_cross_step [unfolded numeral_2_eq_2]
      size1_def size2_def bcompat_def bmap2_def Let_def)

theorem decoder_cache_threading_witness:
  "TransformerLayer_forward example_layer [[[0]]] (Some [[[[1, 1]]]]) (Some [[[0]]])
     (Some [[[[1]]]]) (Some [[[[[0]]]], [[[[0]]]], [[[[3]]]]]) True None None
     = Inl AssertionError
   \<and> split_past_key_value (layer_is_decoder example_layer)
       (Some [[[[[0]]]], [[[[0]]]], [[[[3]]]], [[[[0]]]]])
     = Inr (Some [[[[[0]]]], [[[[0]]]]], Some [[[[[3]]]], [[[[0]]]]])
   \<and> (\<exists>r k v ck cv.
        TransformerLayer_forward example_layer [[[0]]] (Some [[[[1, 1]]]]) (Some [[[0]]])
          (Some [[[[1]]]]) (Some [[[[[0]]]], [[[[0]]]], [[[[3]]]], [[[[0]]]]]) True None None
          = Inr r
      \<and> presents r = Some [k, v, ck, cv])"
proof -
  have dec: "layer_is_decoder example_layer"
    by (simp add: example_layer_def)
  note src = decoder_cache_threading [OF dec]
  have 1: "TransformerLayer_forward example_layer [[[0]]] (Some [[[[1, 1]]]]) (Some [[[0]]])
     (Some [[[[1]]]]) (Some [[[[[0]]]], [[[[0]]]], [[[[3]]]]]) True None None
     = Inl AssertionError"
    using src [THEN conjunct1, rule_format, of "[[[[[0]]]], [[[[0]]]], [[[[3]]]]]"] by simp
  have 2: "split_past_key_value (layer_is_decoder example_layer)
       (Some [[[[[0]]]], [[[[0]]]], [[[[3]]]], [[[[0]]]]])
     = Inr (Some [[[[[0]]]], [[[[0]]]]], Some [[[[[3]]]], [[[[0]]]]])"
    using src [THEN conjunct2, THEN conjunct1, rule_format,
        of "[[[[[0]]]], [[[[0]]]], [[[[3]]]], [[[[0]]]]]"] by simp
  have 3: "\<exists>r k v ck cv.
        TransformerLayer_forward example_layer [[[0]]] (Some [[[[1, 1]]]]) (Some [[[0]]])
          (Some [[[[1]]]]) (Some [[[[[0]]]], [[[[0]]]], [[[[3]]]], [[[[0]]]]]) True None None
          = Inr r
      \<and> presents r = Some [k, v, ck, cv]"
    using src [THEN conjunct2, THEN conjunct2, rule_format, OF example_layer_decode_step]
      example_layer_decode_step by blast
  show ?thesis using 1 2 3 by blast
qed

end
